theory Spec2Isabelle
  imports Complex_Main
begin

section \<open>Errors and arrays\<close>

text \<open>
  The Python exceptions the modelled code can raise. \<open>Raised\<close> is an exception thrown by
  one of the external callables (activation, loss). \<open>Unmodelled\<close> marks the one place
  where this model stops: its arrays are two-dimensional, and an elementwise product
  with a three-dimensional operand (numpy would broadcast to a 3-D array and go on) ends
  the run with this outcome.
\<close>

datatype error =
    AttributeError
  | IndexError
  | ValueError
  | ZeroDivisionError
  | AssertionError
  | UnboundLocalError
  | Raised string
  | Unmodelled

text \<open>
  A 2-D numpy array of floats is a list of rows; the scalars are idealised as reals.
  \<open>nrows\<close> and \<open>ncols\<close> are \<open>shape[0]\<close> and \<open>shape[-1]\<close>. The derivative mode of an
  activation may also return a 3-D array (the softmax Jacobian), a list of matrices
  indexed \<open>[j][i][n]\<close>.
\<close>

type_synonym mat = "real list list"

datatype ndarray = Arr2 mat | Arr3 "mat list"

definition nrows :: "mat \<Rightarrow> nat" where
  "nrows M = length M"

definition ncols :: "mat \<Rightarrow> nat" where
  "ncols M = (case M of [] \<Rightarrow> 0 | r # _ \<Rightarrow> length r)"

definition is_mat :: "nat \<Rightarrow> nat \<Rightarrow> mat \<Rightarrow> bool" where
  "is_mat r c M = (length M = r \<and> list_all (\<lambda>row. length row = c) M)"

text \<open>\<open>M.T\<close>\<close>

definition np_T :: "mat \<Rightarrow> mat" where
  "np_T M = map (\<lambda>j. map (\<lambda>row. row ! j) M) [0..<ncols M]"

text \<open>\<open>np.dot(A, B)\<close>: rows of \<open>A\<close> against columns of \<open>B\<close>; misaligned shapes raise.\<close>

definition np_dot :: "mat \<Rightarrow> mat \<Rightarrow> error + mat" where
  "np_dot A B =
     (if ncols A = nrows B
      then Inr (map (\<lambda>row. map (\<lambda>col. sum_list (map2 (*) row col)) (np_T B)) A)
      else Inl ValueError)"

text \<open>\<open>c * M\<close> for a Python scalar \<open>c\<close>.\<close>

definition np_scale :: "real \<Rightarrow> mat \<Rightarrow> mat" where
  "np_scale c M = map (map ((*) c)) M"

text \<open>\<open>np.sum(M, axis=1, keepdims=True)\<close>\<close>

definition np_sum_axis1 :: "mat \<Rightarrow> mat" where
  "np_sum_axis1 M = map (\<lambda>row. [sum_list row]) M"

text \<open>
  Elementwise binary operations broadcast: two lengths of one axis are compatible when
  they are equal or one of them is 1, and an operand of length 1 is read at index 0.
\<close>

definition bdim :: "nat \<Rightarrow> nat \<Rightarrow> nat option" where
  "bdim m n = (if m = n then Some m else if m = 1 then Some n else if n = 1 then Some m else None)"

definition bget :: "mat \<Rightarrow> nat \<Rightarrow> nat \<Rightarrow> real" where
  "bget M i j = M ! (if nrows M = 1 then 0 else i) ! (if ncols M = 1 then 0 else j)"

definition np_broadcast :: "(real \<Rightarrow> real \<Rightarrow> real) \<Rightarrow> mat \<Rightarrow> mat \<Rightarrow> error + mat" where
  "np_broadcast f A B =
     (case bdim (nrows A) (nrows B) of
        None \<Rightarrow> Inl ValueError
      | Some r \<Rightarrow>
     (case bdim (ncols A) (ncols B) of
        None \<Rightarrow> Inl ValueError
      | Some c \<Rightarrow> Inr (map (\<lambda>i. map (\<lambda>j. f (bget A i j) (bget B i j)) [0..<c]) [0..<r])))"

text \<open>\<open>A * B\<close> where \<open>B\<close> may be 3-D.\<close>

definition np_mul :: "mat \<Rightarrow> ndarray \<Rightarrow> error + mat" where
  "np_mul A B = (case B of Arr2 M \<Rightarrow> np_broadcast (*) A M | Arr3 _ \<Rightarrow> Inl Unmodelled)"

text \<open>
  The in-place forms \<open>A += B\<close> and \<open>A -= B\<close>: the broadcast result must have the shape
  of \<open>A\<close> itself.
\<close>

definition np_inplace :: "(real \<Rightarrow> real \<Rightarrow> real) \<Rightarrow> mat \<Rightarrow> mat \<Rightarrow> error + mat" where
  "np_inplace f A B =
     (case np_broadcast f A B of
        Inl e \<Rightarrow> Inl e
      | Inr C \<Rightarrow> if nrows C = nrows A \<and> ncols C = ncols A then Inr C else Inl ValueError)"

text \<open>\<open>np.all(A == B)\<close>; shapes that do not broadcast compare unequal.\<close>

definition np_all_eq :: "mat \<Rightarrow> mat \<Rightarrow> bool" where
  "np_all_eq A B =
     (case np_broadcast (\<lambda>x y. if x = y then 1 else 0) A B of
        Inl _ \<Rightarrow> False
      | Inr C \<Rightarrow> list_all (list_all (\<lambda>v. v = 1)) C)"

text \<open>\<open>1 / batch_size\<close> on a Python int.\<close>

definition py_inv :: "nat \<Rightarrow> error + real" where
  "py_inv n = (if n = 0 then Inl ZeroDivisionError else Inr (1 / real n))"

text \<open>
  \<open>np.einsum('in,jin->jn', L, J)\<close>: \<open>out[j][n] = \<Sum>i. L[i][n] * J[j][i][n]\<close>. Every slice
  \<open>J[j]\<close> must have the shape of \<open>L\<close> (numpy's broadcasting of axes of length 1 inside
  einsum is not modelled: such operands raise here).
\<close>

definition np_einsum_in_jin_jn :: "mat \<Rightarrow> mat list \<Rightarrow> error + mat" where
  "np_einsum_in_jin_jn L J =
     (if list_all (\<lambda>Jj. nrows Jj = nrows L \<and> list_all (\<lambda>row. length row = ncols L) Jj) J
      then Inr (map (\<lambda>Jj. map (\<lambda>n. sum_list (map2 (\<lambda>Lrow Jrow. Lrow ! n * Jrow ! n) L Jj))
                              [0..<ncols L]) J)
      else Inl ValueError)"

section \<open>Exceptions and state\<close>

text \<open>
  A method that mutates an object returns its outcome together with the object as the
  method left it: \<open>Inl e\<close> when the exception \<open>e\<close> propagated (the mutations made before
  the raise stay), \<open>Inr v\<close> when it returned \<open>v\<close>. \<open>attr\<close> reads an attribute, \<open>bindE\<close>
  continues after a pure computation that may raise, \<open>bindS\<close> after a call that may
  both mutate and raise.
\<close>

definition attr :: "'a option \<Rightarrow> error + 'a" where
  "attr v = (case v of None \<Rightarrow> Inl AttributeError | Some x \<Rightarrow> Inr x)"

definition bindE :: "error + 'a \<Rightarrow> 's \<Rightarrow> ('a \<Rightarrow> (error + 'b) \<times> 's) \<Rightarrow> (error + 'b) \<times> 's" where
  "bindE m s f = (case m of Inl e \<Rightarrow> (Inl e, s) | Inr v \<Rightarrow> f v)"

definition bindS :: "(error + 'a) \<times> 's \<Rightarrow> ('a \<Rightarrow> 's \<Rightarrow> (error + 'b) \<times> 's) \<Rightarrow> (error + 'b) \<times> 's" where
  "bindS m f = (case fst m of Inl e \<Rightarrow> (Inl e, snd m) | Inr v \<Rightarrow> f v (snd m))"

section \<open>Layers\<close>

text \<open>
  An activation is an external callable with an evaluation mode and a derivative mode;
  \<open>is_softmax\<close> says whether the object is \<open>activations.softmax\<close> itself, which is what
  the source tests with \<open>g is softmax\<close>.
\<close>

datatype activation =
  Activation (is_softmax: bool) (act_eval: "mat \<Rightarrow> error + mat") (act_deriv: "mat \<Rightarrow> error + ndarray")

text \<open>
  Modelled from the spec: the regularizer classes are not among the sources. A
  regularizer is bound to one parameter of its layer; \<open>param\<close> returns the array it
  refers to and \<open>derivative()\<close> an array computed from it. The binding is \<open>Live\<close> when the
  referenced array is the layer's current parameter, and \<open>Stale M\<close> when it is another
  array, of contents \<open>M\<close>.
\<close>

datatype binding = Live | Stale mat

datatype regularizer = Regularizer (reg_binding: binding) (reg_fn: "mat \<Rightarrow> mat")

definition reg_param :: "regularizer \<Rightarrow> mat \<Rightarrow> mat" where
  "reg_param r current = (case reg_binding r of Live \<Rightarrow> current | Stale M \<Rightarrow> M)"

definition reg_derivative :: "regularizer \<Rightarrow> mat \<Rightarrow> mat" where
  "reg_derivative r current = reg_fn r (reg_param r current)"

text \<open>
  A layer object and its attributes; an attribute that has not been assigned is \<open>None\<close>
  and reading it raises \<open>AttributeError\<close>. \<open>layer_dense\<close> is false for the plain
  \<open>layer.Layer()\<close> that holds the network's input.
\<close>

record layer =
  layer_dense :: bool
  layer_info :: "string option"
  layer_id_attr :: "nat option"
  layer_g :: "activation option"
  layer_w :: "mat option"
  layer_b :: "mat option"
  layer_dw :: "mat option"
  layer_db :: "mat option"
  layer_z :: "mat option"
  layer_a :: "mat option"
  kernel_regularizer :: "regularizer option"
  bias_regularizer :: "regularizer option"

text \<open>\<open>Dense.forward\<close>\<close>

definition forward :: "layer \<Rightarrow> mat \<Rightarrow> (error + mat) \<times> layer" where
  "forward self a =
     bindE (attr (layer_w self)) self (\<lambda>w.
     bindE (np_dot w a) self (\<lambda>wa.
     bindE (attr (layer_b self)) self (\<lambda>b.
     bindE (np_broadcast (+) wa b) self (\<lambda>z.
     let self1 = self\<lparr>layer_z := Some z\<rparr> in
     bindE (attr (layer_g self1)) self1 (\<lambda>g.
     bindE (act_eval g z) self1 (\<lambda>a'.
     (Inr a', self1\<lparr>layer_a := Some a'\<rparr>)))))))"

text \<open>
  The two regularizer blocks of \<open>Dense.backward_step\<close> (lines 63-65 and 68-69), with
  \<open>invb\<close> the value of \<open>1 / batch_size\<close>.
\<close>

definition kernel_regularizer_step :: "real \<Rightarrow> layer \<Rightarrow> (error + unit) \<times> layer" where
  "kernel_regularizer_step invb self =
     (case kernel_regularizer self of
        None \<Rightarrow> (Inr (), self)
      | Some kr \<Rightarrow>
          bindE (attr (layer_dw self)) self (\<lambda>dw.
          bindE (attr (layer_w self)) self (\<lambda>w.
          bindE (np_inplace (+) dw (np_scale invb (reg_derivative kr w))) self (\<lambda>dw'.
          let self1 = self\<lparr>layer_dw := Some dw'\<rparr> in
          if np_all_eq (reg_param kr w) w then (Inr (), self1) else (Inl AssertionError, self1)))))"

definition bias_regularizer_step :: "real \<Rightarrow> layer \<Rightarrow> (error + unit) \<times> layer" where
  "bias_regularizer_step invb self =
     (case bias_regularizer self of
        None \<Rightarrow> (Inr (), self)
      | Some br \<Rightarrow>
          bindE (attr (layer_db self)) self (\<lambda>db.
          bindE (attr (layer_b self)) self (\<lambda>b.
          bindE (np_inplace (+) db (np_scale invb (reg_derivative br b))) self (\<lambda>db'.
          (Inr (), self\<lparr>layer_db := Some db'\<rparr>)))))"

text \<open>\<open>Dense.backward_step(a_next, w_prev, error_prev)\<close>\<close>

definition backward_step :: "layer \<Rightarrow> mat \<Rightarrow> mat \<Rightarrow> mat \<Rightarrow> (error + mat) \<times> layer" where
  "backward_step self a_next w_prev error_prev =
     (let batch_size = ncols a_next in
      bindE (attr (layer_g self)) self (\<lambda>g.
      bindE (attr (layer_z self)) self (\<lambda>z.
      bindE (act_deriv g z) self (\<lambda>derivative.
      bindE (np_dot (np_T w_prev) error_prev) self (\<lambda>proj.
      bindE (np_mul proj derivative) self (\<lambda>error.
      bindE (py_inv batch_size) self (\<lambda>invb.
      bindE (np_dot error (np_T a_next)) self (\<lambda>ea.
      let self1 = self\<lparr>layer_dw := Some (np_scale invb ea)\<rparr>;
          self2 = self1\<lparr>layer_db := Some (np_scale invb (np_sum_axis1 error))\<rparr> in
      bindS (kernel_regularizer_step invb self2) (\<lambda>_ self3.
      bindS (bias_regularizer_step invb self3) (\<lambda>_ self4.
      (Inr error, self4)))))))))))"


section \<open>The network\<close>

text \<open>
  A loss is an external callable with a value mode and a derivative mode
  (\<open>partial(loss, derivative=True)\<close>); the third argument is \<open>average_examples\<close>.
\<close>

datatype loss =
  Loss (loss_value: "mat \<Rightarrow> mat \<Rightarrow> bool \<Rightarrow> error + real")
       (loss_derivative: "mat \<Rightarrow> mat \<Rightarrow> bool \<Rightarrow> error + mat")

text \<open>
  A key of the \<open>layers\<close> dict: a string (which has no attribute \<open>info\<close>) or any other
  hashable object, here a layer object.
\<close>

datatype dict_key = StrKey string | ObjKey layer

definition key_info :: "dict_key \<Rightarrow> string option" where
  "key_info k = (case k of StrKey _ \<Rightarrow> None | ObjKey l \<Rightarrow> layer_info l)"

text \<open>
  \<open>Network(list)\<close>: \<open>items\<close> are the elements of the list itself, the other fields the
  attributes; \<open>batch_norm\<close>, \<open>lr\<close>, \<open>loss_fct\<close> (with \<open>derivative_loss_fct\<close>, the same
  callable in derivative mode), \<open>grads_\<close>, \<open>n\<close> and \<open>d\<close> do not exist until assigned.
\<close>

record network =
  items :: "layer list"
  layers :: "(dict_key \<times> layer) list"
  epoch :: int
  verbose :: bool
  softmax :: "bool option"
  batch_norm :: "bool option"
  lr :: "real option"
  loss_fct :: "loss option"
  grads_attr :: "mat list option"
  n_attr :: "real option"
  d_attr :: "real option"

text \<open>
  Modelled from the spec: \<open>layer.Layer\<close> is not among the sources. The plain layer holds
  no parameters, its call is the identity on its input, and it has no \<open>backward_step\<close>;
  calling a dense layer runs its \<open>forward\<close>.
\<close>

definition input_layer :: layer where
  "input_layer = \<lparr>layer_dense = False, layer_info = None, layer_id_attr = None, layer_g = None, layer_w = None,
     layer_b = None, layer_dw = None, layer_db = None, layer_z = None, layer_a = None,
     kernel_regularizer = None, bias_regularizer = None\<rparr>"

definition layer_call :: "layer \<Rightarrow> mat \<Rightarrow> (error + mat) \<times> layer" where
  "layer_call l a = (if layer_dense l then forward l a else (Inr a, l))"

definition layer_backward_step :: "layer \<Rightarrow> mat \<Rightarrow> mat \<Rightarrow> mat \<Rightarrow> (error + mat) \<times> layer" where
  "layer_backward_step l a_next w_prev error_prev =
     (if layer_dense l then backward_step l a_next w_prev error_prev else (Inl AttributeError, l))"

text \<open>\<open>Network.__init__\<close>, \<open>add\<close>\<close>

definition Network_init :: "bool \<Rightarrow> network" where
  "Network_init v = \<lparr>items = [input_layer], layers = [], epoch = 0, verbose = v,
     softmax = None, batch_norm = None, lr = None, loss_fct = None,
     grads_attr = None, n_attr = None, d_attr = None\<rparr>"

definition add :: "layer \<Rightarrow> network \<Rightarrow> network" where
  "add l self = self\<lparr>items := items self @ [l]\<rparr>"

text \<open>
  \<open>Network.compile\<close>. The loop runs over the keys of \<open>self.layers\<close>; a key without
  \<open>info\<close> raises \<open>AttributeError\<close>, which is caught.
\<close>

fun compile_loop :: "dict_key list \<Rightarrow> network \<Rightarrow> network" where
  "compile_loop [] self = self"
| "compile_loop (l # ls) self =
     compile_loop ls (if key_info l = Some ''batch'' then self\<lparr>batch_norm := Some True\<rparr> else self)"

definition compile :: "loss \<Rightarrow> real \<Rightarrow> network \<Rightarrow> (error + unit) \<times> network" where
  "compile loss_arg lr_arg self =
     (let self1 = compile_loop (map fst (layers self)) (self\<lparr>batch_norm := Some False\<rparr>);
          self2 = self1\<lparr>lr := Some lr_arg, loss_fct := Some loss_arg\<rparr> in
      if items self2 = [] then (Inl IndexError, self2)
      else bindE (attr (layer_g (last (items self2)))) self2 (\<lambda>g.
           if is_softmax g then (Inr (), self2\<lparr>softmax := Some True\<rparr>) else (Inr (), self2)))"

text \<open>\<open>Network.forward_step\<close> (also \<open>__call__\<close> and \<open>predict\<close>)\<close>

fun forward_layers :: "layer list \<Rightarrow> mat \<Rightarrow> (error + mat) \<times> layer list" where
  "forward_layers [] a = (Inr a, [])"
| "forward_layers (l # ls) a =
     (case layer_call l a of
        (Inl e, l') \<Rightarrow> (Inl e, l' # ls)
      | (Inr a', l') \<Rightarrow> (case forward_layers ls a' of (r, ls') \<Rightarrow> (r, l' # ls')))"

definition forward_step :: "mat \<Rightarrow> network \<Rightarrow> (error + mat) \<times> network" where
  "forward_step a self =
     (case items self of
        [] \<Rightarrow> (Inl IndexError, self)
      | l0 # ls \<Rightarrow>
          (case forward_layers (l0\<lparr>layer_a := Some a\<rparr> # ls) a of
             (r, ls') \<Rightarrow> (r, self\<lparr>items := ls'\<rparr>)))"

definition predict :: "mat \<Rightarrow> network \<Rightarrow> (error + mat) \<times> network" where
  "predict x self = forward_step x self"

text \<open>
  \<open>Network._backprop_last_layer\<close>. \<open>output_delta\<close> is the choice of lines 155-158:
  the contraction needs a 3-D derivative, the elementwise product is
  \<open>derivative_layer * derivative_loss\<close>.
\<close>

definition output_delta :: "activation \<Rightarrow> mat \<Rightarrow> ndarray \<Rightarrow> error + mat" where
  "output_delta g derivative_loss derivative_layer =
     (if is_softmax g
      then (case derivative_layer of
              Arr3 J \<Rightarrow> np_einsum_in_jin_jn derivative_loss J
            | Arr2 _ \<Rightarrow> Inl ValueError)
      else (case derivative_layer of
              Arr2 D \<Rightarrow> np_broadcast (*) D derivative_loss
            | Arr3 _ \<Rightarrow> Inl Unmodelled))"

definition backprop_last_layer :: "mat \<Rightarrow> mat \<Rightarrow> network \<Rightarrow> (error + mat) \<times> network" where
  "backprop_last_layer x y self =
     bindE (attr (loss_fct self)) self (\<lambda>dloss_fct.
     if items self = [] then (Inl IndexError, self) else
     let lst = last (items self) in
     bindE (attr (layer_a lst)) self (\<lambda>ypred.
     bindE (loss_derivative dloss_fct ypred y False) self (\<lambda>derivative_loss.
     bindE (attr (layer_g lst)) self (\<lambda>g.
     bindE (attr (layer_z lst)) self (\<lambda>z.
     bindE (act_deriv g z) self (\<lambda>derivative_layer.
     bindE (output_delta g derivative_loss derivative_layer) self (\<lambda>deltaL.
     let batch_size = ncols x in
     bindE (py_inv batch_size) self (\<lambda>invb.
     if length (items self) < 2 then (Inl IndexError, self) else
     bindE (attr (layer_a (items self ! (length (items self) - 2)))) self (\<lambda>a_prev.
     bindE (np_dot deltaL (np_T a_prev)) self (\<lambda>da.
     let lst1 = lst\<lparr>layer_dw := Some (np_scale invb da)\<rparr>;
         lst2 = lst1\<lparr>layer_db := Some (np_scale invb (np_sum_axis1 deltaL))\<rparr> in
     (Inr deltaL, self\<lparr>items := (items self)[length (items self) - 1 := lst2]\<rparr>)))))))))))"

text \<open>
  \<open>Network.backpropagation\<close>: the loop runs \<open>l\<close> over \<open>range(len(self)-2, 0, -1)\<close>, so
  \<open>l - 1\<close> and \<open>l + 1\<close> are indices of the list.
\<close>

fun backprop_loop :: "nat list \<Rightarrow> mat \<Rightarrow> network \<Rightarrow> (error + unit) \<times> network" where
  "backprop_loop [] error_prev self = (Inr (), self)"
| "backprop_loop (l # ls) error_prev self =
     bindE (attr (layer_a (items self ! (l - 1)))) self (\<lambda>a_next.
     bindE (attr (layer_w (items self ! (l + 1)))) self (\<lambda>w_prev.
     case layer_backward_step (items self ! l) a_next w_prev error_prev of
       (Inl e, l') \<Rightarrow> (Inl e, self\<lparr>items := (items self)[l := l']\<rparr>)
     | (Inr error, l') \<Rightarrow> backprop_loop ls error (self\<lparr>items := (items self)[l := l']\<rparr>)))"

definition backpropagation :: "mat \<Rightarrow> mat \<Rightarrow> network \<Rightarrow> (error + unit) \<times> network" where
  "backpropagation x y self =
     bindS (backprop_last_layer x y self) (\<lambda>error_prev self1.
     backprop_loop (rev [1..<length (items self1) - 1]) error_prev self1)"

definition train_on_batch :: "mat \<Rightarrow> mat \<Rightarrow> network \<Rightarrow> (error + unit) \<times> network" where
  "train_on_batch x y self =
     bindS (forward_step x self) (\<lambda>_ self1. backpropagation x y self1)"

text \<open>\<open>Network.update_weights\<close>: the body for one layer, then the loop over \<open>self[1:]\<close>.\<close>

definition update_layer :: "real option \<Rightarrow> layer \<Rightarrow> (error + unit) \<times> layer" where
  "update_layer lr_attr l =
     bindE (attr (layer_w l)) l (\<lambda>w.
     bindE (attr lr_attr) l (\<lambda>rate.
     bindE (attr (layer_dw l)) l (\<lambda>dw.
     bindE (np_inplace (-) w (np_scale rate dw)) l (\<lambda>w'.
     let l1 = l\<lparr>layer_w := Some w'\<rparr> in
     bindE (attr (layer_b l1)) l1 (\<lambda>b.
     bindE (attr (layer_db l1)) l1 (\<lambda>db.
     bindE (np_inplace (-) b (np_scale rate db)) l1 (\<lambda>b'.
     (Inr (), l1\<lparr>layer_b := Some b'\<rparr>))))))))"

fun update_layers :: "real option \<Rightarrow> layer list \<Rightarrow> (error + unit) \<times> layer list" where
  "update_layers lr_attr [] = (Inr (), [])"
| "update_layers lr_attr (l # ls) =
     (case update_layer lr_attr l of
        (Inl e, l') \<Rightarrow> (Inl e, l' # ls)
      | (Inr _, l') \<Rightarrow> (case update_layers lr_attr ls of (r, ls') \<Rightarrow> (r, l' # ls')))"

definition update_weights :: "network \<Rightarrow> (error + unit) \<times> network" where
  "update_weights self =
     (case update_layers (lr self) (drop 1 (items self)) of
        (r, ls') \<Rightarrow> (r, self\<lparr>items := take 1 (items self) @ ls'\<rparr>))"

text \<open>\<open>Network.get_loss\<close>, as all its callers use it: \<open>average_examples=True\<close>.\<close>

definition get_loss :: "mat \<Rightarrow> mat \<Rightarrow> network \<Rightarrow> (error + real) \<times> network" where
  "get_loss x ytrue self =
     bindS (forward_step x self) (\<lambda>ypred self1.
     bindE (attr (loss_fct self1)) self1 (\<lambda>f.
     bindE (loss_value f ypred ytrue True) self1 (\<lambda>v. (Inr v, self1))))"


section \<open>Gradient checking\<close>

text \<open>
  Reading and writing one element \<open>self[layer_id].w[weight_idx]\<close>, with
  \<open>weight_idx = (i, j)\<close>. Indices are naturals: Python's negative indices are not
  modelled.
\<close>

definition get_weight :: "nat \<Rightarrow> nat \<times> nat \<Rightarrow> network \<Rightarrow> error + real" where
  "get_weight layer_id weight_idx self =
     (if length (items self) \<le> layer_id then Inl IndexError
      else case layer_w (items self ! layer_id) of
             None \<Rightarrow> Inl AttributeError
           | Some w \<Rightarrow>
               if fst weight_idx < length w \<and> snd weight_idx < length (w ! fst weight_idx)
               then Inr (w ! fst weight_idx ! snd weight_idx)
               else Inl IndexError)"

definition set_weight :: "nat \<Rightarrow> nat \<times> nat \<Rightarrow> real \<Rightarrow> network \<Rightarrow> (error + unit) \<times> network" where
  "set_weight layer_id weight_idx v self =
     (if length (items self) \<le> layer_id then (Inl IndexError, self)
      else case layer_w (items self ! layer_id) of
             None \<Rightarrow> (Inl AttributeError, self)
           | Some w \<Rightarrow>
               if fst weight_idx < length w \<and> snd weight_idx < length (w ! fst weight_idx)
               then (Inr (), self\<lparr>items := (items self)[layer_id :=
                       (items self ! layer_id)\<lparr>layer_w :=
                          Some (w[fst weight_idx := (w ! fst weight_idx)[snd weight_idx := v]])\<rparr>]\<rparr>)
               else (Inl IndexError, self))"

text \<open>
  \<open>Network.gradient_check\<close>: the loop over \<open>sign in [+1, -1]\<close>, then the restoring
  assignment. A zero \<open>eps\<close> makes the final division fail (as \<open>ZeroDivisionError\<close> on
  Python floats; numpy floats would give a non-finite value instead).
\<close>

fun perturb_loop ::
  "mat \<Rightarrow> mat \<Rightarrow> real \<Rightarrow> nat \<Rightarrow> nat \<times> nat \<Rightarrow> real \<Rightarrow> real list \<Rightarrow> real \<Rightarrow> network
     \<Rightarrow> (error + real) \<times> network" where
  "perturb_loop x ytrue eps layer_id weight_idx w_original [] cost self = (Inr cost, self)"
| "perturb_loop x ytrue eps layer_id weight_idx w_original (sign # signs) cost self =
     bindS (set_weight layer_id weight_idx (w_original + sign * eps) self) (\<lambda>_ self1.
     bindS (get_loss x ytrue self1) (\<lambda>v self2.
     perturb_loop x ytrue eps layer_id weight_idx w_original signs (cost + sign * v) self2))"

definition gradient_check ::
  "mat \<Rightarrow> mat \<Rightarrow> real \<Rightarrow> nat \<Rightarrow> nat \<times> nat \<Rightarrow> network \<Rightarrow> (error + real) \<times> network" where
  "gradient_check x ytrue eps layer_id weight_idx self =
     bindE (get_weight layer_id weight_idx self) self (\<lambda>w_original.
     bindS (perturb_loop x ytrue eps layer_id weight_idx w_original [1, -1] 0 self) (\<lambda>cost self1.
     bindS (set_weight layer_id weight_idx w_original self1) (\<lambda>_ self2.
     if 2 * eps = 0 then (Inl ZeroDivisionError, self2) else (Inr (cost / (2 * eps)), self2))))"

text \<open>
  The draws of numpy's global generator are a parameter: \<open>rnd k\<close> is the raw value of
  the \<open>k\<close>-th draw made by the call. \<open>np.random.randint(low, high)\<close> raises when
  \<open>high \<le> low\<close>, \<open>np.random.choice(n)\<close> when \<open>n = 0\<close>.
\<close>

definition np_randint :: "nat \<Rightarrow> nat \<Rightarrow> nat \<Rightarrow> error + nat" where
  "np_randint raw low high = (if high \<le> low then Inl ValueError else Inr (low + raw mod (high - low)))"

definition np_choice :: "nat \<Rightarrow> nat \<Rightarrow> error + nat" where
  "np_choice raw n = (if n = 0 then Inl ValueError else Inr (raw mod n))"

definition get_dw :: "nat \<Rightarrow> nat \<times> nat \<Rightarrow> network \<Rightarrow> error + real" where
  "get_dw layer_id weight_idx self =
     (if length (items self) \<le> layer_id then Inl IndexError
      else case layer_dw (items self ! layer_id) of
             None \<Rightarrow> Inl AttributeError
           | Some dw \<Rightarrow>
               if fst weight_idx < length dw \<and> snd weight_idx < length (dw ! fst weight_idx)
               then Inr (dw ! fst weight_idx ! snd weight_idx)
               else Inl IndexError)"

text \<open>
  \<open>Network.gradient_checks\<close>: the loop \<open>for check in range(checks)\<close> returns the arrays
  \<open>grads\<close> and \<open>grads_backprop\<close> it fills; each pass makes three draws.
\<close>

fun gradient_checks_loop ::
  "nat \<Rightarrow> (nat \<Rightarrow> nat) \<Rightarrow> mat \<Rightarrow> mat \<Rightarrow> real \<Rightarrow> network
     \<Rightarrow> (error + real list \<times> real list) \<times> network" where
  "gradient_checks_loop 0 rnd x ytrue eps self = (Inr ([], []), self)"
| "gradient_checks_loop (Suc k) rnd x ytrue eps self =
     bindE (np_randint (rnd 0) 1 (length (items self))) self (\<lambda>layer_id.
     bindE (attr (layer_w (items self ! layer_id))) self (\<lambda>w.
     bindE (np_choice (rnd 1) (nrows w)) self (\<lambda>i.
     bindE (np_choice (rnd 2) (ncols w)) self (\<lambda>j.
     bindS (gradient_check x ytrue eps layer_id (i, j) self) (\<lambda>gradient self1.
     bindE (get_dw layer_id (i, j) self1) self1 (\<lambda>gb.
     bindS (gradient_checks_loop k (\<lambda>n. rnd (n + 3)) x ytrue eps self1) (\<lambda>rest self2.
     (Inr (gradient # fst rest, gb # snd rest), self2))))))))"

definition np_norm :: "real list \<Rightarrow> real" where
  "np_norm v = sqrt (sum_list (map (\<lambda>t. t * t) v))"

definition gradient_checks ::
  "(nat \<Rightarrow> nat) \<Rightarrow> mat \<Rightarrow> mat \<Rightarrow> nat \<Rightarrow> real \<Rightarrow> network \<Rightarrow> (error + real) \<times> network" where
  "gradient_checks rnd x ytrue checks eps self =
     bindS (gradient_checks_loop checks rnd x ytrue eps self) (\<lambda>gs self1.
     (Inr (np_norm (map2 (-) (fst gs) (snd gs)) / (np_norm (fst gs) + np_norm (snd gs))), self1))"

text \<open>
  \<open>Network.complete_gradient_check\<close>. The inner loop runs over
  \<open>itertools.product(range(rows), range(cols))\<close> and fills \<open>gradient_manual\<close>; the outer
  loop visits the layer objects of \<open>self[1:]\<close>, here by their index \<open>k\<close>.
\<close>

fun manual_loop ::
  "(nat \<times> nat) list \<Rightarrow> mat \<Rightarrow> mat \<Rightarrow> real \<Rightarrow> nat \<Rightarrow> mat \<Rightarrow> network \<Rightarrow> (error + mat) \<times> network" where
  "manual_loop [] x y eps k gradient_manual self = (Inr gradient_manual, self)"
| "manual_loop (idx # idxs) x y eps k gradient_manual self =
     bindE (attr (layer_id_attr (items self ! k))) self (\<lambda>lid.
     bindS (gradient_check x y eps lid idx self) (\<lambda>gradient self1.
     manual_loop idxs x y eps k
       (gradient_manual[fst idx := (gradient_manual ! fst idx)[snd idx := gradient]]) self1))"

definition np_norm_mat :: "mat \<Rightarrow> real" where
  "np_norm_mat M = np_norm (concat M)"

fun complete_loop :: "nat list \<Rightarrow> mat \<Rightarrow> mat \<Rightarrow> real \<Rightarrow> network \<Rightarrow> (error + unit) \<times> network" where
  "complete_loop [] x y eps self = (Inr (), self)"
| "complete_loop (k # ks) x y eps self =
     bindE (attr (layer_w (items self ! k))) self (\<lambda>w.
     bindS (manual_loop (List.product [0..<nrows w] [0..<ncols w]) x y eps k
              (replicate (nrows w) (replicate (ncols w) 0)) self) (\<lambda>gradient_manual self1.
     bindE (attr (layer_dw (items self1 ! k))) self1 (\<lambda>dw.
     bindE (np_broadcast (-) gradient_manual dw) self1 (\<lambda>diff.
     let numerator = np_norm_mat diff;
         denominator = np_norm_mat gradient_manual + np_norm_mat dw;
         self2 = self1\<lparr>n_attr := Some numerator, d_attr := Some denominator\<rparr> in
     bindE (attr (grads_attr self2)) self2 (\<lambda>grads.
     complete_loop ks x y eps (self2\<lparr>grads_attr := Some (grads @ [gradient_manual])\<rparr>))))))"

definition complete_gradient_check :: "mat \<Rightarrow> mat \<Rightarrow> real \<Rightarrow> network \<Rightarrow> (error + unit) \<times> network" where
  "complete_gradient_check x y eps self =
     complete_loop [1..<length (items self)] x y eps (self\<lparr>grads_attr := Some []\<rparr>)"

section \<open>Training\<close>

text \<open>
  The calls \<open>fit\<close> issues are recorded in order, next to the network: a call is recorded
  when it is made, whether it returns or raises.
\<close>

datatype call =
    TrainOnBatch mat mat
  | GetLoss mat mat
  | GradientChecks mat mat real nat
  | UpdateWeights
  | Call mat

type_synonym fit_state = "network \<times> call list"

definition called :: "call \<Rightarrow> (network \<Rightarrow> (error + 'a) \<times> network) \<Rightarrow> fit_state \<Rightarrow> (error + 'a) \<times> fit_state" where
  "called c f st = (fst (f (fst st)), (snd (f (fst st)), snd st @ [c]))"

text \<open>Truthiness of the argument \<open>gradients_to_check_each_epoch\<close> (\<open>None\<close> or an int).\<close>

definition truthy :: "int option \<Rightarrow> bool" where
  "truthy v = (case v of None \<Rightarrow> False | Some k \<Rightarrow> k \<noteq> 0)"

text \<open>
  \<open>np.argmax(M, axis=0)\<close> raises on an array without rows. Its value, like the
  comparisons, sums and means computed from it, only feeds the printed line and is not
  modelled.
\<close>

definition np_argmax_axis0 :: "mat \<Rightarrow> error + unit" where
  "np_argmax_axis0 M = (if nrows M = 0 then Inl ValueError else Inr ())"

text \<open>
  The body of the minibatch loop of \<open>fit\<close> (lines 83-92) for the minibatch of index \<open>m\<close>.
  The locals it carries are \<open>losses\<close> and whether \<open>grad_printout\<close> is bound.
\<close>

definition fit_batch ::
  "int option \<Rightarrow> (nat \<Rightarrow> nat) \<Rightarrow> nat \<Rightarrow> mat \<times> mat \<Rightarrow> real list \<times> bool \<Rightarrow> fit_state
     \<Rightarrow> (error + real list \<times> bool) \<times> fit_state" where
  "fit_batch gradients_to_check_each_epoch rnd m minibatch locals st =
     bindS (called (TrainOnBatch (fst minibatch) (snd minibatch))
              (train_on_batch (fst minibatch) (snd minibatch)) st) (\<lambda>_ st1.
     bindS (called (GetLoss (fst minibatch) (snd minibatch))
              (get_loss (fst minibatch) (snd minibatch)) st1) (\<lambda>v st2.
     bindS (if truthy gradients_to_check_each_epoch \<and> m = 1
            then bindS (called (GradientChecks (fst minibatch) (snd minibatch) (1 / 10 ^ 6) 3)
                          (gradient_checks rnd (fst minibatch) (snd minibatch) 3 (1 / 10 ^ 6)) st2)
                   (\<lambda>goodness st3. (Inr True, st3))
            else (Inr (snd locals), st2)) (\<lambda>bound st3.
     bindS (called UpdateWeights update_weights st3) (\<lambda>_ st4.
     (Inr (fst locals @ [v], bound), st4)))))"

fun fit_batches ::
  "int option \<Rightarrow> (nat \<Rightarrow> nat) \<Rightarrow> (nat \<times> mat \<times> mat) list \<Rightarrow> real list \<times> bool \<Rightarrow> fit_state
     \<Rightarrow> (error + real list \<times> bool) \<times> fit_state" where
  "fit_batches g rnd [] locals st = (Inr locals, st)"
| "fit_batches g rnd (mb # mbs) locals st =
     bindS (fit_batch g rnd (fst mb) (snd mb) locals st) (\<lambda>locals1 st1.
     fit_batches g rnd mbs locals1 st1)"

text \<open>
  The body of the epoch loop (lines 77-110). \<open>minibatches\<close> stands for
  \<open>misc.minibatches\<close>, which is not among the sources; \<open>bound\<close> says whether
  \<open>grad_printout\<close> is bound on entry, and the result whether it is on exit.
\<close>

definition set_lr :: "real \<Rightarrow> fit_state \<Rightarrow> fit_state" where
  "set_lr v st = ((fst st)\<lparr>lr := Some v\<rparr>, snd st)"

definition fit_epoch ::
  "(mat \<Rightarrow> mat \<Rightarrow> nat \<Rightarrow> (mat \<times> mat) list) \<Rightarrow> (nat \<Rightarrow> nat) \<Rightarrow> mat \<Rightarrow> mat \<Rightarrow> (mat \<times> mat) option
     \<Rightarrow> int option \<Rightarrow> bool \<Rightarrow> fit_state \<Rightarrow> (error + bool) \<times> fit_state" where
  "fit_epoch minibatches rnd x y validation_data g bound st =
     bindE (attr (lr (fst st))) st (\<lambda>rate.
     let st0 = set_lr (rate * (993 / 1000)) st;
         batches = minibatches x y 1000 in
     bindS (fit_batches g rnd (zip [0..<length batches] batches) ([], bound) st0) (\<lambda>locals st1.
     bindS (called (Call x) (forward_step x) st1) (\<lambda>a_train st2.
     bindE (np_argmax_axis0 a_train) st2 (\<lambda>_.
     bindS (case validation_data of
              None \<Rightarrow> (Inr (), st2)
            | Some (xtest, ytest) \<Rightarrow>
                bindS (called (Call xtest) (forward_step xtest) st2) (\<lambda>a_test st3.
                bindE (np_argmax_axis0 a_test) st3 (\<lambda>_.
                bindS (called (GetLoss xtest ytest) (get_loss xtest ytest) st3) (\<lambda>_ st4.
                (Inr (), st4))))) (\<lambda>_ st5.
     if \<not> snd locals then (Inl UnboundLocalError, st5)
     else (Inr True, ((fst st5)\<lparr>epoch := epoch (fst st5) + 1\<rparr>, snd st5)))))))"

fun fit_epochs ::
  "(mat \<Rightarrow> mat \<Rightarrow> nat \<Rightarrow> (mat \<times> mat) list) \<Rightarrow> (nat \<Rightarrow> nat \<Rightarrow> nat) \<Rightarrow> mat \<Rightarrow> mat \<Rightarrow> (mat \<times> mat) option
     \<Rightarrow> int option \<Rightarrow> nat list \<Rightarrow> bool \<Rightarrow> fit_state \<Rightarrow> (error + unit) \<times> fit_state" where
  "fit_epochs minibatches rnd x y validation_data g [] bound st = (Inr (), st)"
| "fit_epochs minibatches rnd x y validation_data g (e # es) bound st =
     bindS (fit_epoch minibatches (rnd e) x y validation_data g bound st) (\<lambda>bound1 st1.
     fit_epochs minibatches rnd x y validation_data g es bound1 st1)"

text \<open>
  \<open>Network.fit(x, y, epochs, batch_size, validation_data, gradients_to_check_each_epoch)\<close>.
  \<open>rnd e\<close> are the generator's draws during the gradient checks of epoch \<open>e\<close>. The
  result carries the network as \<open>fit\<close> left it and the calls it made. The argument
  \<open>verbose\<close> and the printed text are left out.
\<close>

definition fit ::
  "(mat \<Rightarrow> mat \<Rightarrow> nat \<Rightarrow> (mat \<times> mat) list) \<Rightarrow> (nat \<Rightarrow> nat \<Rightarrow> nat) \<Rightarrow> mat \<Rightarrow> mat \<Rightarrow> int \<Rightarrow> nat
     \<Rightarrow> (mat \<times> mat) option \<Rightarrow> int option \<Rightarrow> network \<Rightarrow> (error + unit) \<times> fit_state" where
  "fit minibatches rnd x y epochs batch_size validation_data gradients_to_check_each_epoch self =
     (let st = (self, []) in
      bindE (np_argmax_axis0 y) st (\<lambda>_.
      bindE (case validation_data of
               None \<Rightarrow> Inr ()
             | Some (xtest, ytest) \<Rightarrow>
                 if ncols xtest = ncols ytest then np_argmax_axis0 ytest else Inl AssertionError) st (\<lambda>_.
      fit_epochs minibatches rnd x y validation_data gradients_to_check_each_epoch
        [1..<nat epochs] (\<not> truthy gradients_to_check_each_epoch) st)))"


text \<open>
  Modelled from the spec: \<open>misc.minibatches\<close> is not among the sources. The spec has it
  "partition the training set into minibatches of a configured size": consecutive
  blocks of \<open>batch_size\<close> examples (columns), the last one possibly shorter.
\<close>

definition columns :: "mat \<Rightarrow> nat \<Rightarrow> nat \<Rightarrow> mat" where
  "columns M start k = map (\<lambda>row. take k (drop start row)) M"

definition minibatches :: "mat \<Rightarrow> mat \<Rightarrow> nat \<Rightarrow> (mat \<times> mat) list" where
  "minibatches x y batch_size =
     (if batch_size = 0 then []
      else map (\<lambda>k. (columns x (k * batch_size) batch_size, columns y (k * batch_size) batch_size))
             [0..<(ncols x + batch_size - 1) div batch_size])"

section \<open>Sequences of operations\<close>

text \<open>
  The methods a client can call on a network, and the network a sequence of such calls
  leaves behind; a call that raises leaves the network as it was at the raise.
\<close>

datatype op =
    OpAdd layer
  | OpCompile loss real
  | OpFit "mat \<Rightarrow> mat \<Rightarrow> nat \<Rightarrow> (mat \<times> mat) list" "nat \<Rightarrow> nat \<Rightarrow> nat" mat mat int nat
      "(mat \<times> mat) option" "int option"
  | OpCall mat
  | OpPredict mat
  | OpTrainOnBatch mat mat
  | OpBackpropagation mat mat
  | OpBackpropLastLayer mat mat
  | OpUpdateWeights
  | OpGetLoss mat mat
  | OpCompleteGradientCheck mat mat real
  | OpGradientChecks "nat \<Rightarrow> nat" mat mat nat real
  | OpGradientCheck mat mat real nat "nat \<times> nat"

fun exec :: "op \<Rightarrow> network \<Rightarrow> network" where
  "exec (OpAdd l) self = add l self"
| "exec (OpCompile f v) self = snd (compile f v self)"
| "exec (OpFit mbs rnd x y epochs batch_size vd g) self =
     fst (snd (fit mbs rnd x y epochs batch_size vd g self))"
| "exec (OpCall x) self = snd (forward_step x self)"
| "exec (OpPredict x) self = snd (predict x self)"
| "exec (OpTrainOnBatch x y) self = snd (train_on_batch x y self)"
| "exec (OpBackpropagation x y) self = snd (backpropagation x y self)"
| "exec (OpBackpropLastLayer x y) self = snd (backprop_last_layer x y self)"
| "exec OpUpdateWeights self = snd (update_weights self)"
| "exec (OpGetLoss x y) self = snd (get_loss x y self)"
| "exec (OpCompleteGradientCheck x y eps) self = snd (complete_gradient_check x y eps self)"
| "exec (OpGradientChecks rnd x y checks eps) self = snd (gradient_checks rnd x y checks eps self)"
| "exec (OpGradientCheck x y eps lid idx) self = snd (gradient_check x y eps lid idx self)"

fun run :: "op list \<Rightarrow> network \<Rightarrow> network" where
  "run [] self = self"
| "run (c # cs) self = run cs (exec c self)"

section \<open>Example objects\<close>

text \<open>
  Concrete callables and layers for the evaluated instances below: the identity
  activation, the squared-error loss \<open>\<Sum>(ypred - ytrue)\<^sup>2 / 2\<close> (divided by the number of
  examples when averaged), a regularizer whose derivative is its parameter, and dense
  layers with given parameters.
\<close>

definition identity_act :: activation where
  "identity_act = Activation False (\<lambda>z. Inr z) (\<lambda>z. Inr (Arr2 (map (map (\<lambda>_. 1)) z)))"

definition squared_loss :: loss where
  "squared_loss = Loss
     (\<lambda>ypred ytrue average_examples.
        case np_broadcast (-) ypred ytrue of
          Inl e \<Rightarrow> Inl e
        | Inr D \<Rightarrow> Inr (sum_list (map (\<lambda>v. v * v) (concat D))
                        / (if average_examples then 2 * real (ncols ypred) else 2)))
     (\<lambda>ypred ytrue average_examples. np_broadcast (-) ypred ytrue)"

definition l2_regularizer :: "binding \<Rightarrow> regularizer" where
  "l2_regularizer bnd = Regularizer bnd (\<lambda>P. P)"

definition dense :: "mat \<Rightarrow> mat \<Rightarrow> layer" where
  "dense w0 b0 = \<lparr>layer_dense = True, layer_info = None, layer_id_attr = None,
     layer_g = Some identity_act, layer_w = Some w0, layer_b = Some b0,
     layer_dw = Some (map (map (\<lambda>_. 0)) w0), layer_db = Some (map (map (\<lambda>_. 0)) b0),
     layer_z = None, layer_a = None, kernel_regularizer = None, bias_regularizer = None\<rparr>"

definition example_net :: "real \<Rightarrow> network" where
  "example_net rate = snd (compile squared_loss rate (add (dense [[2]] [[0]]) (Network_init False)))"


definition example_hidden :: layer where
  "example_hidden = (dense [[2], [3]] [[0], [0]])
     \<lparr>layer_z := Some [[1, 2], [3, 4]], kernel_regularizer := Some (l2_regularizer Live)\<rparr>"

definition example_unit :: layer where
  "example_unit = (dense [[2]] [[0]])\<lparr>layer_z := Some [[1]]\<rparr>"

definition example_reg_net :: network where
  "example_reg_net = snd (forward_step [[1]]
     (snd (compile squared_loss 1
        (add ((dense [[2]] [[1]])\<lparr>kernel_regularizer := Some (l2_regularizer Live),
                                   bias_regularizer := Some (l2_regularizer Live)\<rparr>)
           (Network_init False)))))"

text \<open>
  A stand-in for the softmax object on two units: it answers with the softmax of
  \<open>z = [[0], [0]]\<close> and its Jacobian there, laid out \<open>[j][i][n]\<close>.
\<close>

definition softmax_at_zero :: activation where
  "softmax_at_zero = Activation True (\<lambda>z. Inr [[1 / 2], [1 / 2]])
     (\<lambda>z. Inr (Arr3 [[[1 / 4], [- 1 / 4]], [[- 1 / 4], [1 / 4]]]))"

definition example_softmax_net :: network where
  "example_softmax_net = snd (forward_step [[1]]
     (snd (compile squared_loss 1
        (add ((dense [[0], [0]] [[0], [0]])\<lparr>layer_g := Some softmax_at_zero\<rparr>)
           (Network_init False)))))"

text \<open>
  A stand-in for \<open>misc.minibatches\<close> that cuts single examples when asked for 1000:
  it gives the evaluated instances an epoch of more than one minibatch.
\<close>

definition unit_batches :: "mat \<Rightarrow> mat \<Rightarrow> nat \<Rightarrow> (mat \<times> mat) list" where
  "unit_batches x y k = minibatches x y (k div 1000)"

section \<open>What the claims speak of\<close>

text \<open>
  The contribution of a regularizer to entry \<open>(i, j)\<close> of a gradient: the entry of its
  \<open>derivative()\<close> when one is bound, nothing otherwise.
\<close>

definition reg_term :: "regularizer option \<Rightarrow> mat option \<Rightarrow> nat \<Rightarrow> nat \<Rightarrow> real" where
  "reg_term reg P i j =
     (case reg of
        None \<Rightarrow> 0
      | Some rg \<Rightarrow> (case P of None \<Rightarrow> 0 | Some M \<Rightarrow> reg_derivative rg M ! i ! j))"

text \<open>
  A bound kernel regularizer is well-formed for an \<open>r \<times> p\<close> weight matrix when its
  derivative has that shape and its parameter equals the layer's \<open>w\<close>; a bound bias
  regularizer when its derivative has the shape \<open>r \<times> 1\<close> of \<open>b\<close>.
\<close>

definition kernel_ok :: "layer \<Rightarrow> nat \<Rightarrow> nat \<Rightarrow> bool" where
  "kernel_ok self r p =
     (case kernel_regularizer self of
        None \<Rightarrow> True
      | Some kr \<Rightarrow>
          (case layer_w self of
             None \<Rightarrow> False
           | Some w \<Rightarrow> is_mat r p (reg_derivative kr w) \<and> np_all_eq (reg_param kr w) w))"

definition bias_ok :: "layer \<Rightarrow> nat \<Rightarrow> bool" where
  "bias_ok self r =
     (case bias_regularizer self of
        None \<Rightarrow> True
      | Some br \<Rightarrow>
          (case layer_b self of None \<Rightarrow> False | Some b \<Rightarrow> is_mat r 1 (reg_derivative br b)))"

text \<open>
  The derivative the final activation hands to \<open>_backprop_last_layer\<close> is well-formed
  when it is the \<open>(out, out, batch)\<close> Jacobian for the softmax object and an
  \<open>(out, batch)\<close> array for any other activation; \<open>claimed_deltaL\<close> is the entry
  \<open>[j, n]\<close> of the output error as the specification words it.
\<close>

definition derivative_ok :: "activation \<Rightarrow> nat \<Rightarrow> nat \<Rightarrow> ndarray \<Rightarrow> bool" where
  "derivative_ok g out B dAct =
     (case dAct of
        Arr3 J \<Rightarrow> is_softmax g \<and> length J = out \<and> list_all (is_mat out B) J
      | Arr2 D \<Rightarrow> \<not> is_softmax g \<and> is_mat out B D)"

definition claimed_deltaL :: "activation \<Rightarrow> nat \<Rightarrow> mat \<Rightarrow> ndarray \<Rightarrow> nat \<Rightarrow> nat \<Rightarrow> real" where
  "claimed_deltaL g out dLoss dAct j n =
     (if is_softmax g
      then (case dAct of Arr3 J \<Rightarrow> (\<Sum>i<out. dLoss ! i ! n * J ! j ! i ! n) | Arr2 _ \<Rightarrow> 0)
      else (case dAct of Arr2 D \<Rightarrow> D ! j ! n * dLoss ! j ! n | Arr3 _ \<Rightarrow> 0))"

text \<open>
  The weight matrices of a network, layer by layer; \<open>put\<close> overwrites one element of
  one of them, \<open>valid_idx\<close> says that the element exists.
\<close>

definition weights :: "network \<Rightarrow> mat option list" where
  "weights self = map layer_w (items self)"

definition valid_idx :: "nat \<Rightarrow> nat \<times> nat \<Rightarrow> mat option list \<Rightarrow> bool" where
  "valid_idx lid idx Ws =
     (lid < length Ws \<and>
      (case Ws ! lid of
         None \<Rightarrow> False
       | Some W \<Rightarrow> fst idx < length W \<and> snd idx < length (W ! fst idx)))"

definition put :: "nat \<Rightarrow> nat \<times> nat \<Rightarrow> real \<Rightarrow> mat option list \<Rightarrow> mat option list" where
  "put lid idx v Ws =
     (case Ws ! lid of
        None \<Rightarrow> Ws
      | Some W \<Rightarrow> Ws[lid := Some (W[fst idx := (W ! fst idx)[snd idx := v]])])"

text \<open>
  Relations between the state before and after an operation: \<open>same_attrs\<close> when only
  the list of layers may differ, \<open>same_layers\<close> when the \<open>layers\<close> dict is the same,
  \<open>fst_same\<close> and \<open>keeps sel\<close> for the network inside the state of \<open>fit\<close>, and
  \<open>trace_ext P\<close> when the calls recorded since all satisfy \<open>P\<close>. \<open>gc_ok\<close> is what C10
  says of a recorded call of \<open>gradient_checks\<close>, \<open>B\<close> being the epoch's minibatches.
\<close>

definition same_attrs :: "network \<Rightarrow> network \<Rightarrow> bool" where
  "same_attrs s s' = (s' = s\<lparr>items := items s'\<rparr>)"

definition same_layers :: "network \<Rightarrow> network \<Rightarrow> bool" where
  "same_layers s s' = (layers s' = layers s)"

definition fst_same :: "fit_state \<Rightarrow> fit_state \<Rightarrow> bool" where
  "fst_same st st' = same_attrs (fst st) (fst st')"

definition keeps :: "(network \<Rightarrow> 'a) \<Rightarrow> fit_state \<Rightarrow> fit_state \<Rightarrow> bool" where
  "keeps sel st st' = (sel (fst st') = sel (fst st))"

definition trace_ext :: "(call \<Rightarrow> bool) \<Rightarrow> fit_state \<Rightarrow> fit_state \<Rightarrow> bool" where
  "trace_ext P st st' = (\<exists>ev. snd st' = snd st @ ev \<and> list_all P ev)"

definition gc_ok :: "int option \<Rightarrow> (mat \<times> mat) list \<Rightarrow> call \<Rightarrow> bool" where
  "gc_ok g B c =
     (case c of
        GradientChecks xb yb e k \<Rightarrow>
          truthy g \<and> e = 1 / 10 ^ 6 \<and> k = 3 \<and> 1 < length B \<and> B ! 1 = (xb, yb)
      | _ \<Rightarrow> True)"

text \<open>
  The gradient check of \<open>fit\<close> as the specification words it (C10), to be compared with
  the source's \<open>gradient_checks\<close> and \<open>fit\<close> below. \<open>shapes\<close> lists the shape of every
  layer's weight matrix. \<open>sample_pair rnd i S\<close> is the \<open>i\<close>-th sampled (layer, element)
  pair: a layer index from \<open>1\<close> to the last layer and a row and a column of its weight
  matrix, taken from the draws \<open>3i\<close>, \<open>3i + 1\<close> and \<open>3i + 2\<close>; there is no pair when the
  network has no layer beyond the first, when the layer has no weights, or when its
  weight matrix is empty.
\<close>

definition shapes :: "network \<Rightarrow> (nat \<times> nat) option list" where
  "shapes self = map (\<lambda>l. map_option (\<lambda>w. (nrows w, ncols w)) (layer_w l)) (items self)"

definition sample_pair :: "(nat \<Rightarrow> nat) \<Rightarrow> nat \<Rightarrow> (nat \<times> nat) option list \<Rightarrow> error + nat \<times> nat \<times> nat" where
  "sample_pair rnd i S =
     (if length S \<le> 1 then Inl ValueError
      else case S ! (1 + rnd (3 * i) mod (length S - 1)) of
             None \<Rightarrow> Inl AttributeError
           | Some rc \<Rightarrow>
               if fst rc = 0 \<or> snd rc = 0 then Inl ValueError
               else Inr (1 + rnd (3 * i) mod (length S - 1),
                         rnd (3 * i + 1) mod fst rc, rnd (3 * i + 2) mod snd rc))"

text \<open>
  \<open>check_pairs\<close> runs one \<open>gradient_check\<close> per pair, in order, and collects the numeric
  gradients and the entries of \<open>dw\<close> at the pairs. \<open>sampled_gradient_checks\<close> does so for
  exactly three sampled pairs with \<open>eps = 10\<^sup>-\<^sup>6\<close>, and returns the relative distance of
  the two collections.
\<close>

fun check_pairs ::
  "(error + nat \<times> nat \<times> nat) list \<Rightarrow> mat \<Rightarrow> mat \<Rightarrow> real \<Rightarrow> network
     \<Rightarrow> (error + real list \<times> real list) \<times> network" where
  "check_pairs [] x ytrue eps self = (Inr ([], []), self)"
| "check_pairs (p # ps) x ytrue eps self =
     bindE p self (\<lambda>pair.
     bindS (gradient_check x ytrue eps (fst pair) (snd pair) self) (\<lambda>gradient self1.
     bindE (get_dw (fst pair) (snd pair) self1) self1 (\<lambda>gb.
     bindS (check_pairs ps x ytrue eps self1) (\<lambda>rest self2.
     (Inr (gradient # fst rest, gb # snd rest), self2)))))"

definition sampled_gradient_checks ::
  "(nat \<Rightarrow> nat) \<Rightarrow> mat \<Rightarrow> mat \<Rightarrow> network \<Rightarrow> (error + real) \<times> network" where
  "sampled_gradient_checks rnd x ytrue self =
     bindS (check_pairs [sample_pair rnd 0 (shapes self), sample_pair rnd 1 (shapes self),
                         sample_pair rnd 2 (shapes self)] x ytrue (1 / 10 ^ 6) self) (\<lambda>gs self1.
     (Inr (np_norm (map2 (-) (fst gs) (snd gs)) / (np_norm (fst gs) + np_norm (snd gs))), self1))"

text \<open>
  \<open>fit_sampled\<close> is \<open>fit\<close> with that check in place of the call of \<open>gradient_checks\<close>:
  on the minibatch of index 1 of every epoch, when \<open>gradients_to_check_each_epoch\<close> is
  truthy, it runs \<open>sampled_gradient_checks\<close>, which is given neither a number of checks
  nor an \<open>eps\<close>.
\<close>

definition fit_batch_sampled ::
  "int option \<Rightarrow> (nat \<Rightarrow> nat) \<Rightarrow> nat \<Rightarrow> mat \<times> mat \<Rightarrow> real list \<times> bool \<Rightarrow> fit_state
     \<Rightarrow> (error + real list \<times> bool) \<times> fit_state" where
  "fit_batch_sampled gradients_to_check_each_epoch rnd m minibatch locals st =
     bindS (called (TrainOnBatch (fst minibatch) (snd minibatch))
              (train_on_batch (fst minibatch) (snd minibatch)) st) (\<lambda>_ st1.
     bindS (called (GetLoss (fst minibatch) (snd minibatch))
              (get_loss (fst minibatch) (snd minibatch)) st1) (\<lambda>v st2.
     bindS (if truthy gradients_to_check_each_epoch \<and> m = 1
            then bindS (called (GradientChecks (fst minibatch) (snd minibatch) (1 / 10 ^ 6) 3)
                          (sampled_gradient_checks rnd (fst minibatch) (snd minibatch)) st2)
                   (\<lambda>goodness st3. (Inr True, st3))
            else (Inr (snd locals), st2)) (\<lambda>bound st3.
     bindS (called UpdateWeights update_weights st3) (\<lambda>_ st4.
     (Inr (fst locals @ [v], bound), st4)))))"

fun fit_batches_sampled ::
  "int option \<Rightarrow> (nat \<Rightarrow> nat) \<Rightarrow> (nat \<times> mat \<times> mat) list \<Rightarrow> real list \<times> bool \<Rightarrow> fit_state
     \<Rightarrow> (error + real list \<times> bool) \<times> fit_state" where
  "fit_batches_sampled g rnd [] locals st = (Inr locals, st)"
| "fit_batches_sampled g rnd (mb # mbs) locals st =
     bindS (fit_batch_sampled g rnd (fst mb) (snd mb) locals st) (\<lambda>locals1 st1.
     fit_batches_sampled g rnd mbs locals1 st1)"

definition fit_epoch_sampled ::
  "(mat \<Rightarrow> mat \<Rightarrow> nat \<Rightarrow> (mat \<times> mat) list) \<Rightarrow> (nat \<Rightarrow> nat) \<Rightarrow> mat \<Rightarrow> mat \<Rightarrow> (mat \<times> mat) option
     \<Rightarrow> int option \<Rightarrow> bool \<Rightarrow> fit_state \<Rightarrow> (error + bool) \<times> fit_state" where
  "fit_epoch_sampled batcher rnd x y validation_data g bound st =
     bindE (attr (lr (fst st))) st (\<lambda>rate.
     let st0 = set_lr (rate * (993 / 1000)) st;
         batches = batcher x y 1000 in
     bindS (fit_batches_sampled g rnd (zip [0..<length batches] batches) ([], bound) st0) (\<lambda>locals st1.
     bindS (called (Call x) (forward_step x) st1) (\<lambda>a_train st2.
     bindE (np_argmax_axis0 a_train) st2 (\<lambda>_.
     bindS (case validation_data of
              None \<Rightarrow> (Inr (), st2)
            | Some (xtest, ytest) \<Rightarrow>
                bindS (called (Call xtest) (forward_step xtest) st2) (\<lambda>a_test st3.
                bindE (np_argmax_axis0 a_test) st3 (\<lambda>_.
                bindS (called (GetLoss xtest ytest) (get_loss xtest ytest) st3) (\<lambda>_ st4.
                (Inr (), st4))))) (\<lambda>_ st5.
     if \<not> snd locals then (Inl UnboundLocalError, st5)
     else (Inr True, ((fst st5)\<lparr>epoch := epoch (fst st5) + 1\<rparr>, snd st5)))))))"

fun fit_epochs_sampled ::
  "(mat \<Rightarrow> mat \<Rightarrow> nat \<Rightarrow> (mat \<times> mat) list) \<Rightarrow> (nat \<Rightarrow> nat \<Rightarrow> nat) \<Rightarrow> mat \<Rightarrow> mat \<Rightarrow> (mat \<times> mat) option
     \<Rightarrow> int option \<Rightarrow> nat list \<Rightarrow> bool \<Rightarrow> fit_state \<Rightarrow> (error + unit) \<times> fit_state" where
  "fit_epochs_sampled batcher rnd x y validation_data g [] bound st = (Inr (), st)"
| "fit_epochs_sampled batcher rnd x y validation_data g (e # es) bound st =
     bindS (fit_epoch_sampled batcher (rnd e) x y validation_data g bound st) (\<lambda>bound1 st1.
     fit_epochs_sampled batcher rnd x y validation_data g es bound1 st1)"

definition fit_sampled ::
  "(mat \<Rightarrow> mat \<Rightarrow> nat \<Rightarrow> (mat \<times> mat) list) \<Rightarrow> (nat \<Rightarrow> nat \<Rightarrow> nat) \<Rightarrow> mat \<Rightarrow> mat \<Rightarrow> int \<Rightarrow> nat
     \<Rightarrow> (mat \<times> mat) option \<Rightarrow> int option \<Rightarrow> network \<Rightarrow> (error + unit) \<times> fit_state" where
  "fit_sampled batcher rnd x y epochs batch_size validation_data gradients_to_check_each_epoch self =
     (let st = (self, []) in
      bindE (np_argmax_axis0 y) st (\<lambda>_.
      bindE (case validation_data of
               None \<Rightarrow> Inr ()
             | Some (xtest, ytest) \<Rightarrow>
                 if ncols xtest = ncols ytest then np_argmax_axis0 ytest else Inl AssertionError) st (\<lambda>_.
      fit_epochs_sampled batcher rnd x y validation_data gradients_to_check_each_epoch
        [1..<nat epochs] (\<not> truthy gradients_to_check_each_epoch) st)))"

text \<open>
  \<open>same_shapes\<close> relates two states of a network whose weight matrices have the same
  shapes.
\<close>

definition same_shapes :: "network \<Rightarrow> network \<Rightarrow> bool" where
  "same_shapes s s' = (shapes s' = shapes s)"

section \<open>Evaluation rules\<close>

lemma bindE_Inl: "bindE (Inl e) s f = (Inl e, s)"
  by (simp add: bindE_def)

lemma bindE_Inr: "bindE (Inr v) s f = f v"
  by (simp add: bindE_def)

lemma bindS_Inl: "bindS (Inl e, s) f = (Inl e, s)"
  by (simp add: bindS_def)

lemma bindS_Inr: "bindS (Inr v, s) f = f v s"
  by (simp add: bindS_def)

lemma bindE_weak_cong: "m = m' \<Longrightarrow> s = s' \<Longrightarrow> bindE m s f = bindE m' s' f"
  by simp

lemma bindS_weak_cong: "m = m' \<Longrightarrow> bindS m f = bindS m' f"
  by simp

lemmas bind_simps = bindE_Inl bindE_Inr bindS_Inl bindS_Inr

lemmas np_defs = nrows_def ncols_def np_T_def np_dot_def np_scale_def np_sum_axis1_def
  bdim_def bget_def np_broadcast_def np_mul_def np_inplace_def np_all_eq_def py_inv_def
  attr_def reg_param_def reg_derivative_def np_einsum_in_jin_jn_def np_argmax_axis0_def

lemmas net_defs = Network_init_def add_def compile_def input_layer_def layer_call_def
  layer_backward_step_def forward_def backward_step_def kernel_regularizer_step_def
  bias_regularizer_step_def forward_step_def predict_def backprop_last_layer_def output_delta_def
  backpropagation_def train_on_batch_def update_layer_def update_weights_def get_loss_def
  get_weight_def set_weight_def gradient_check_def get_dw_def np_randint_def np_choice_def
  gradient_checks_def called_def truthy_def fit_batch_def fit_epoch_def fit_def set_lr_def
  key_info_def

lemma identity_act_simps:
  "act_eval identity_act z = Inr z"
  "act_deriv identity_act z = Inr (Arr2 (map (map (\<lambda>_. 1)) z))"
  "is_softmax identity_act = False"
  by (simp_all add: identity_act_def)

lemma squared_loss_simps:
  "loss_value squared_loss p y a =
     (case np_broadcast (-) p y of
        Inl e \<Rightarrow> Inl e
      | Inr D \<Rightarrow> Inr (sum_list (map (\<lambda>v. v * v) (concat D)) / (if a then 2 * real (ncols p) else 2)))"
  "loss_derivative squared_loss p y a = np_broadcast (-) p y"
  by (simp_all add: squared_loss_def)

lemmas ex_defs = identity_act_simps squared_loss_simps l2_regularizer_def dense_def
  example_net_def minibatches_def columns_def example_hidden_def example_unit_def

section \<open>Arrays: shapes and entries\<close>

lemma is_mat_nrows: "is_mat r c M \<Longrightarrow> nrows M = r"
  by (simp add: is_mat_def nrows_def)

lemma is_mat_ncols: "is_mat r c M \<Longrightarrow> 0 < r \<Longrightarrow> ncols M = c"
  by (cases M) (auto simp: is_mat_def ncols_def)

lemma is_mat_row: "is_mat r c M \<Longrightarrow> i < r \<Longrightarrow> length (M ! i) = c"
  by (auto simp: is_mat_def list_all_length)

lemma is_matI: "length M = r \<Longrightarrow> (\<And>i. i < r \<Longrightarrow> length (M ! i) = c) \<Longrightarrow> is_mat r c M"
  by (auto simp: is_mat_def list_all_length)

lemma np_T_is_mat: "is_mat r c M \<Longrightarrow> 0 < r \<Longrightarrow> is_mat c r (np_T M)"
  by (rule is_matI) (simp_all add: np_T_def is_mat_ncols, simp add: is_mat_def)

lemma np_T_nth: "is_mat r c M \<Longrightarrow> i < r \<Longrightarrow> j < c \<Longrightarrow> np_T M ! j ! i = M ! i ! j"
  using is_mat_ncols[of r c M] by (simp add: np_T_def is_mat_def)

lemma sum_list_nth: "length xs = k \<Longrightarrow> sum_list xs = (\<Sum>l<k. xs ! l)"
  by (metis atLeast0LessThan sum_list_sum_nth)

lemma sum_list_map2_nth:
  assumes "length xs = k" "length ys = k"
  shows "sum_list (map2 f xs ys) = (\<Sum>l<k. f (xs ! l) (ys ! l))"
proof -
  have "sum_list (map2 f xs ys) = (\<Sum>l<k. map2 f xs ys ! l)"
    using assms by (intro sum_list_nth) simp
  also have "\<dots> = (\<Sum>l<k. f (xs ! l) (ys ! l))"
    using assms by (intro sum.cong refl) simp
  finally show ?thesis .
qed

lemma np_dot_ok:
  assumes A: "is_mat r k A" and B: "is_mat k c B" and r: "0 < r" and k: "0 < k"
  shows "\<exists>C. np_dot A B = Inr C \<and> is_mat r c C \<and>
           (\<forall>i<r. \<forall>j<c. C ! i ! j = (\<Sum>l<k. A ! i ! l * B ! l ! j))"
proof -
  let ?C = "map (\<lambda>row. map (\<lambda>col. sum_list (map2 (*) row col)) (np_T B)) A"
  have shape: "ncols A = nrows B"
    using A B r by (simp add: is_mat_ncols is_mat_nrows)
  have T: "is_mat c k (np_T B)" using B k by (rule np_T_is_mat)
  have lenA: "length A = r" using A by (simp add: is_mat_def)
  have lenT: "length (np_T B) = c" using T by (simp add: is_mat_def)
  have "is_mat r c ?C"
    by (rule is_matI) (simp_all add: lenA lenT)
  moreover have "?C ! i ! j = (\<Sum>l<k. A ! i ! l * B ! l ! j)" if "i < r" "j < c" for i j
  proof -
    have "?C ! i ! j = sum_list (map2 (*) (A ! i) (np_T B ! j))"
      using that by (simp add: lenA lenT)
    also have "\<dots> = (\<Sum>l<k. A ! i ! l * np_T B ! j ! l)"
      using that by (intro sum_list_map2_nth) (simp_all add: is_mat_row[OF A] is_mat_row[OF T])
    also have "\<dots> = (\<Sum>l<k. A ! i ! l * B ! l ! j)"
      using that by (intro sum.cong refl) (simp add: np_T_nth[OF B])
    finally show ?thesis .
  qed
  ultimately show ?thesis
    by (auto simp: np_dot_def shape)
qed

lemma np_broadcast_same:
  assumes A: "is_mat r c A" and B: "is_mat r c B" and r: "0 < r"
  shows "\<exists>C. np_broadcast f A B = Inr C \<and> is_mat r c C \<and>
           (\<forall>i<r. \<forall>j<c. C ! i ! j = f (A ! i ! j) (B ! i ! j))"
proof -
  have s: "nrows A = r" "nrows B = r" "ncols A = c" "ncols B = c"
    using A B r by (simp_all add: is_mat_ncols is_mat_nrows)
  let ?C = "map (\<lambda>i. map (\<lambda>j. f (bget A i j) (bget B i j)) [0..<c]) [0..<r]"
  have "is_mat r c ?C" by (rule is_matI) simp_all
  moreover have "?C ! i ! j = f (A ! i ! j) (B ! i ! j)" if "i < r" "j < c" for i j
    using that by (auto simp: bget_def s)
  ultimately show ?thesis
    by (auto simp: np_broadcast_def bdim_def s)
qed

lemma np_scale_is_mat: "is_mat r c M \<Longrightarrow> is_mat r c (np_scale x M)"
  by (auto simp: is_mat_def np_scale_def list_all_length)

lemma np_scale_nth: "is_mat r c M \<Longrightarrow> i < r \<Longrightarrow> j < c \<Longrightarrow> np_scale x M ! i ! j = x * M ! i ! j"
  by (auto simp: is_mat_def np_scale_def list_all_length)

lemma np_sum_axis1_is_mat: "is_mat r c M \<Longrightarrow> is_mat r 1 (np_sum_axis1 M)"
  by (auto simp: is_mat_def np_sum_axis1_def list_all_length)

lemma np_sum_axis1_nth:
  "is_mat r c M \<Longrightarrow> i < r \<Longrightarrow> np_sum_axis1 M ! i ! 0 = (\<Sum>n<c. M ! i ! n)"
  by (simp add: is_mat_def np_sum_axis1_def list_all_length sum_list_nth[of _ c])

lemma np_inplace_same:
  assumes A: "is_mat r c A" and B: "is_mat r c B" and r: "0 < r"
  shows "\<exists>C. np_inplace f A B = Inr C \<and> is_mat r c C \<and>
           (\<forall>i<r. \<forall>j<c. C ! i ! j = f (A ! i ! j) (B ! i ! j))"
proof -
  from np_broadcast_same[OF A B r, of f] obtain C where
    C: "np_broadcast f A B = Inr C" "is_mat r c C"
       "\<forall>i<r. \<forall>j<c. C ! i ! j = f (A ! i ! j) (B ! i ! j)" by blast
  have "nrows C = nrows A" "ncols C = ncols A"
    using A C(2) r by (simp_all add: is_mat_nrows is_mat_ncols)
  then show ?thesis using C by (simp add: np_inplace_def)
qed

lemma kernel_regularizer_step_ok:
  assumes dw: "layer_dw self = Some dw" "is_mat r p dw" and r: "0 < r"
    and ok: "kernel_ok self r p"
  shows "\<exists>dw'. kernel_regularizer_step invb self = (Inr (), self\<lparr>layer_dw := Some dw'\<rparr>) \<and>
           is_mat r p dw' \<and>
           (\<forall>i<r. \<forall>j<p. dw' ! i ! j =
              dw ! i ! j + invb * reg_term (kernel_regularizer self) (layer_w self) i j)"
proof (cases "kernel_regularizer self")
  case None
  have "self\<lparr>layer_dw := Some dw\<rparr> = self" using dw(1) by simp
  then show ?thesis
    using None dw by (auto simp: kernel_regularizer_step_def reg_term_def intro!: exI[of _ dw])
next
  case (Some kr)
  with ok obtain w where w: "layer_w self = Some w" "is_mat r p (reg_derivative kr w)"
      "np_all_eq (reg_param kr w) w"
    by (auto simp: kernel_ok_def split: option.splits)
  have S: "is_mat r p (np_scale invb (reg_derivative kr w))"
    using w(2) by (rule np_scale_is_mat)
  from np_inplace_same[OF dw(2) S r, of "(+)"] obtain dw' where
    dw': "np_inplace (+) dw (np_scale invb (reg_derivative kr w)) = Inr dw'" "is_mat r p dw'"
      "\<forall>i<r. \<forall>j<p. dw' ! i ! j = dw ! i ! j + np_scale invb (reg_derivative kr w) ! i ! j"
    by blast
  have "kernel_regularizer_step invb self = (Inr (), self\<lparr>layer_dw := Some dw'\<rparr>)"
    using Some dw(1) w dw'(1)
    by (simp add: kernel_regularizer_step_def bindE_def attr_def)
  moreover have "dw' ! i ! j = dw ! i ! j + invb * reg_term (kernel_regularizer self) (layer_w self) i j"
    if "i < r" "j < p" for i j
    using that dw'(3) np_scale_nth[OF w(2) that] Some w(1) by (simp add: reg_term_def)
  ultimately show ?thesis using dw'(2) by blast
qed

lemma bias_regularizer_step_ok:
  assumes db: "layer_db self = Some db" "is_mat r 1 db" and r: "0 < r"
    and ok: "bias_ok self r"
  shows "\<exists>db'. bias_regularizer_step invb self = (Inr (), self\<lparr>layer_db := Some db'\<rparr>) \<and>
           is_mat r 1 db' \<and>
           (\<forall>i<r. db' ! i ! 0 =
              db ! i ! 0 + invb * reg_term (bias_regularizer self) (layer_b self) i 0)"
proof (cases "bias_regularizer self")
  case None
  have "self\<lparr>layer_db := Some db\<rparr> = self" using db(1) by simp
  then show ?thesis
    using None db by (auto simp: bias_regularizer_step_def reg_term_def intro!: exI[of _ db])
next
  case (Some br)
  with ok obtain b where b: "layer_b self = Some b" "is_mat r 1 (reg_derivative br b)"
    by (auto simp: bias_ok_def split: option.splits)
  have S: "is_mat r 1 (np_scale invb (reg_derivative br b))"
    using b(2) by (rule np_scale_is_mat)
  from np_inplace_same[OF db(2) S r, of "(+)"] obtain db' where
    db': "np_inplace (+) db (np_scale invb (reg_derivative br b)) = Inr db'" "is_mat r 1 db'"
      "\<forall>i<r. \<forall>j<1. db' ! i ! j = db ! i ! j + np_scale invb (reg_derivative br b) ! i ! j"
    by blast
  have "bias_regularizer_step invb self = (Inr (), self\<lparr>layer_db := Some db'\<rparr>)"
    using Some db(1) b db'(1)
    by (simp add: bias_regularizer_step_def bindE_def attr_def)
  moreover have "db' ! i ! 0 = db ! i ! 0 + invb * reg_term (bias_regularizer self) (layer_b self) i 0"
    if "i < r" for i
    using that db'(3) np_scale_nth[OF b(2) that, of 0] Some b(1) by (simp add: reg_term_def)
  ultimately show ?thesis using db'(2) by blast
qed

section \<open>The dense backward step\<close>

text \<open>
  C1 (as the code has it). For a call of \<open>Dense.backward_step(a_next, w_prev, error_prev)\<close>
  on a layer with cached \<open>z\<close>, an elementwise derivative \<open>D = g'(z)\<close> of shape \<open>r \<times> B\<close>,
  a downstream weight matrix \<open>d \<times> r\<close>, a downstream error \<open>d \<times> B\<close> and an upstream
  activation \<open>p \<times> B\<close> with batch size \<open>B > 0\<close>: the call returns the error
  \<open>(w_prev\<^sup>T \<cdot> error_prev) \<odot> D\<close>, sets \<open>dw\<close> to \<open>(1/B) \<cdot> error \<cdot> a_next\<^sup>T\<close> plus \<open>(1/B)\<close> times the
  kernel regularizer's derivative when one is bound, and sets \<open>db\<close> to \<open>(1/B)\<close> times
  the rowwise sum of the error plus \<open>(1/B)\<close> times the bias regularizer's derivative
  when one is bound.
\<close>

theorem backward_step_gradients:
  assumes g: "layer_g self = Some g" and z: "layer_z self = Some z"
    and D: "act_deriv g z = Inr (Arr2 D)" "is_mat r B D"
    and W: "is_mat d r w_prev" and E: "is_mat d B error_prev" and A: "is_mat p B a_next"
    and pos: "0 < r" "0 < d" "0 < p" "0 < B"
    and kr: "kernel_ok self r p" and br: "bias_ok self r"
  shows "\<exists>error dw db.
      backward_step self a_next w_prev error_prev =
        (Inr error, self\<lparr>layer_dw := Some dw, layer_db := Some db\<rparr>) \<and>
      is_mat r B error \<and> is_mat r p dw \<and> is_mat r 1 db \<and>
      (\<forall>i<r. \<forall>n<B. error ! i ! n = (\<Sum>k<d. w_prev ! k ! i * error_prev ! k ! n) * D ! i ! n) \<and>
      (\<forall>i<r. \<forall>j<p. dw ! i ! j =
          1 / real B * (\<Sum>n<B. error ! i ! n * a_next ! j ! n)
        + 1 / real B * reg_term (kernel_regularizer self) (layer_w self) i j) \<and>
      (\<forall>i<r. db ! i ! 0 =
          1 / real B * (\<Sum>n<B. error ! i ! n)
        + 1 / real B * reg_term (bias_regularizer self) (layer_b self) i 0)"
proof -
  have WT: "is_mat r d (np_T w_prev)" using W pos(2) by (rule np_T_is_mat)
  from np_dot_ok[OF WT E pos(1) pos(2)] obtain proj where
    proj: "np_dot (np_T w_prev) error_prev = Inr proj" "is_mat r B proj"
      "\<forall>i<r. \<forall>n<B. proj ! i ! n = (\<Sum>k<d. np_T w_prev ! i ! k * error_prev ! k ! n)" by blast
  from np_broadcast_same[OF proj(2) D(2) pos(1), of "(*)"] obtain error where
    error: "np_broadcast (*) proj D = Inr error" "is_mat r B error"
      "\<forall>i<r. \<forall>n<B. error ! i ! n = proj ! i ! n * D ! i ! n" by blast
  have err_eq: "error ! i ! n = (\<Sum>k<d. w_prev ! k ! i * error_prev ! k ! n) * D ! i ! n"
    if "i < r" "n < B" for i n
  proof -
    have "proj ! i ! n = (\<Sum>k<d. w_prev ! k ! i * error_prev ! k ! n)"
      using proj(3) that by (auto intro!: sum.cong simp: np_T_nth[OF W])
    then show ?thesis using error(3) that by simp
  qed
  have B: "ncols a_next = B" using A pos(3) by (rule is_mat_ncols)
  have AT: "is_mat B p (np_T a_next)" using A pos(3) by (rule np_T_is_mat)
  from np_dot_ok[OF error(2) AT pos(1) pos(4)] obtain ea where
    ea: "np_dot error (np_T a_next) = Inr ea" "is_mat r p ea"
      "\<forall>i<r. \<forall>j<p. ea ! i ! j = (\<Sum>n<B. error ! i ! n * np_T a_next ! n ! j)" by blast
  define invb where "invb = 1 / real B"
  define self2 where
    "self2 = self\<lparr>layer_dw := Some (np_scale invb ea), layer_db := Some (np_scale invb (np_sum_axis1 error))\<rparr>"
  have dw0: "is_mat r p (np_scale invb ea)" using ea(2) by (rule np_scale_is_mat)
  have db0: "is_mat r 1 (np_scale invb (np_sum_axis1 error))"
    using np_sum_axis1_is_mat[OF error(2)] by (rule np_scale_is_mat)
  have k2: "kernel_ok self2 r p" using kr by (simp add: kernel_ok_def self2_def split: option.splits)
  from kernel_regularizer_step_ok[OF _ dw0 pos(1) k2, of invb] obtain dw where
    dw: "kernel_regularizer_step invb self2 = (Inr (), self2\<lparr>layer_dw := Some dw\<rparr>)"
      "is_mat r p dw"
      "\<forall>i<r. \<forall>j<p. dw ! i ! j = np_scale invb ea ! i ! j
          + invb * reg_term (kernel_regularizer self2) (layer_w self2) i j"
    by (auto simp: self2_def)
  define self3 where "self3 = self2\<lparr>layer_dw := Some dw\<rparr>"
  have b3: "bias_ok self3 r" using br by (simp add: bias_ok_def self3_def self2_def split: option.splits)
  from bias_regularizer_step_ok[OF _ db0 pos(1) b3, of invb] obtain db where
    db: "bias_regularizer_step invb self3 = (Inr (), self3\<lparr>layer_db := Some db\<rparr>)"
      "is_mat r 1 db"
      "\<forall>i<r. db ! i ! 0 = np_scale invb (np_sum_axis1 error) ! i ! 0
          + invb * reg_term (bias_regularizer self3) (layer_b self3) i 0"
    by (auto simp: self3_def self2_def)
  have run: "backward_step self a_next w_prev error_prev =
      (Inr error, self\<lparr>layer_dw := Some dw, layer_db := Some db\<rparr>)"
    using g z D(1) proj(1) error(1) pos(4) ea(1) dw(1) db(1)
    by (simp add: backward_step_def bindE_def bindS_def attr_def np_mul_def py_inv_def B
        invb_def[symmetric] self2_def[symmetric] self3_def[symmetric])
       (simp add: self3_def self2_def)
  have dw_eq: "dw ! i ! j = 1 / real B * (\<Sum>n<B. error ! i ! n * a_next ! j ! n)
        + 1 / real B * reg_term (kernel_regularizer self) (layer_w self) i j"
    if "i < r" "j < p" for i j
  proof -
    have "ea ! i ! j = (\<Sum>n<B. error ! i ! n * a_next ! j ! n)"
      using ea(3) that by (auto intro!: sum.cong simp: np_T_nth[OF A])
    then show ?thesis
      using dw(3) that np_scale_nth[OF ea(2) that] by (simp add: invb_def self2_def)
  qed
  have db_eq: "db ! i ! 0 = 1 / real B * (\<Sum>n<B. error ! i ! n)
        + 1 / real B * reg_term (bias_regularizer self) (layer_b self) i 0"
    if "i < r" for i
    using db(3) that np_scale_nth[OF np_sum_axis1_is_mat[OF error(2)] that, of 0]
      np_sum_axis1_nth[OF error(2) that]
    by (simp add: invb_def self3_def self2_def)
  show ?thesis
    using run error(2) dw(2) db(2) err_eq dw_eq db_eq by blast
qed


theorem backward_step_gradients_witness:
  "layer_g example_hidden = Some identity_act \<and> layer_z example_hidden = Some [[1, 2], [3, 4]] \<and>
   act_deriv identity_act [[1, 2], [3, 4]] = Inr (Arr2 [[1, 1], [1, 1]]) \<and>
   is_mat 2 2 [[1, 1], [1, 1]] \<and> is_mat 1 2 [[1, 1]] \<and> is_mat 1 2 [[3, 5]] \<and> is_mat 1 2 [[1, 2]] \<and>
   kernel_ok example_hidden 2 1 \<and> bias_ok example_hidden 2 \<and>
   (\<exists>error dw db.
      backward_step example_hidden [[1, 2]] [[1, 1]] [[3, 5]] =
        (Inr error, example_hidden\<lparr>layer_dw := Some dw, layer_db := Some db\<rparr>) \<and>
      is_mat 2 2 error \<and> is_mat 2 1 dw \<and> is_mat 2 1 db \<and>
      (\<forall>i<2. \<forall>n<2. error ! i ! n = (\<Sum>k<1. [[1, 1]] ! k ! i * [[3, 5]] ! k ! n) * [[1, 1], [1, 1]] ! i ! n) \<and>
      (\<forall>i<2. \<forall>j<1. dw ! i ! j =
          1 / real 2 * (\<Sum>n<2. error ! i ! n * [[1, 2]] ! j ! n)
        + 1 / real 2 * reg_term (kernel_regularizer example_hidden) (layer_w example_hidden) i j) \<and>
      (\<forall>i<2. db ! i ! 0 =
          1 / real 2 * (\<Sum>n<2. error ! i ! n)
        + 1 / real 2 * reg_term (bias_regularizer example_hidden) (layer_b example_hidden) i 0))"
proof -
  have h1: "layer_g example_hidden = Some identity_act"
    and h2: "layer_z example_hidden = Some [[1, 2], [3, 4]]"
    by (simp_all add: example_hidden_def dense_def)
  have h3: "act_deriv identity_act [[1, 2], [3, 4]] = Inr (Arr2 [[1, 1], [1, 1]])"
    by (simp add: identity_act_simps)
  have h4: "is_mat 2 2 [[1, 1], [1, 1]]" and h5: "is_mat 1 2 [[1, 1]]"
    and h6: "is_mat 1 2 [[3, 5]]" and h7: "is_mat 1 2 [[1, 2]]"
    by (simp_all add: is_mat_def)
  have h8: "kernel_ok example_hidden 2 1"
    by (simp add: kernel_ok_def example_hidden_def dense_def l2_regularizer_def is_mat_def np_defs)
  have h9: "bias_ok example_hidden 2"
    by (simp add: bias_ok_def example_hidden_def dense_def)
  have pos: "(0::nat) < 2" "(0::nat) < 1" by simp_all
  from backward_step_gradients[OF h1 h2 h3 h4 h5 h6 h7 pos(1) pos(2) pos(2) pos(1) h8 h9]
  show ?thesis using h1 h2 h3 h4 h5 h6 h7 h8 h9 by blast
qed

text \<open>
  C1 as stated fails when a kernel regularizer is bound: on a one-unit layer with
  \<open>w = [[2]]\<close> and a regularizer of derivative \<open>w\<close>, the call returns the error \<open>[[3]]\<close>,
  \<open>(1/B) \<cdot> error \<cdot> a_next\<^sup>T\<close> is \<open>[[3]]\<close>, and \<open>dw\<close> is left at \<open>[[5]]\<close>.
\<close>

theorem backward_step_dw_counterexample:
  "fst (backward_step (example_unit\<lparr>kernel_regularizer := Some (l2_regularizer Live)\<rparr>)
          [[1]] [[1]] [[3]]) = Inr [[3]] \<and>
   np_dot [[3]] (np_T [[1]]) = Inr [[3]] \<and>
   np_scale (1 / real (ncols [[1]])) [[3]] = [[3]] \<and>
   layer_dw (snd (backward_step (example_unit\<lparr>kernel_regularizer := Some (l2_regularizer Live)\<rparr>)
          [[1]] [[1]] [[3]])) = Some [[5]]"
  by (simp add: backward_step_def kernel_regularizer_step_def bias_regularizer_step_def
      ex_defs np_defs bind_simps cong: bindE_weak_cong bindS_weak_cong)

text \<open>
  C6: the kernel block of \<open>backward_step\<close> adds \<open>(1/batch_size) \<cdot> derivative()\<close> to \<open>dw\<close>
  and asserts that the regularizer's parameter equals \<open>w\<close>; the bias block adds to \<open>db\<close>
  but asserts nothing. With a bias regularizer bound to a stale array \<open>[[5]]\<close> (the
  layer's \<open>b\<close> is \<open>[[0]]\<close>) the call returns normally and \<open>db\<close> holds the stale
  array's contribution; the same stale binding on the kernel side ends in
  \<open>AssertionError\<close>.
\<close>

theorem bias_regularizer_unchecked:
  "backward_step (example_unit\<lparr>bias_regularizer := Some (l2_regularizer (Stale [[5]]))\<rparr>)
       [[1]] [[1]] [[3]] =
     (Inr [[3]], example_unit\<lparr>bias_regularizer := Some (l2_regularizer (Stale [[5]])),
                   layer_dw := Some [[3]], layer_db := Some [[8]]\<rparr>) \<and>
   fst (backward_step (example_unit\<lparr>kernel_regularizer := Some (l2_regularizer (Stale [[5]]))\<rparr>)
       [[1]] [[1]] [[3]]) = Inl AssertionError"
  by (simp add: backward_step_def kernel_regularizer_step_def bias_regularizer_step_def
      ex_defs np_defs bind_simps cong: bindE_weak_cong bindS_weak_cong)

section \<open>The output layer\<close>

text \<open>
  C5: \<open>_backprop_last_layer\<close> sets the final layer's \<open>dw\<close> and \<open>db\<close> from \<open>deltaL\<close> and
  the previous activation alone. On a network whose final layer (\<open>w = [[2]]\<close>,
  \<open>b = [[1]]\<close>) has both regularizers bound, with \<open>deltaL = [[-2]]\<close>, it leaves
  \<open>dw = db = [[-2]]\<close>; \<open>Dense.backward_step\<close> on that same layer, with the same error and
  upstream activation, leaves \<open>dw = [[0]]\<close> and \<open>db = [[-1]]\<close>, the regularizer terms
  included.
\<close>

theorem last_layer_skips_regularizers:
  "fst (backprop_last_layer [[1]] [[5]] example_reg_net) = Inr [[-2]] \<and>
   layer_dw (last (items (snd (backprop_last_layer [[1]] [[5]] example_reg_net)))) = Some [[-2]] \<and>
   layer_db (last (items (snd (backprop_last_layer [[1]] [[5]] example_reg_net)))) = Some [[-2]] \<and>
   fst (backward_step (last (items example_reg_net)) [[1]] [[1]] [[-2]]) = Inr [[-2]] \<and>
   layer_dw (snd (backward_step (last (items example_reg_net)) [[1]] [[1]] [[-2]])) = Some [[0]] \<and>
   layer_db (snd (backward_step (last (items example_reg_net)) [[1]] [[1]] [[-2]])) = Some [[-1]]"
  by (simp add: example_reg_net_def net_defs ex_defs np_defs bind_simps
      cong: bindE_weak_cong bindS_weak_cong)

lemma np_einsum_ok:
  assumes L: "is_mat k B L" and J: "length J = out" "list_all (is_mat k B) J" and k: "0 < k"
  shows "\<exists>R. np_einsum_in_jin_jn L J = Inr R \<and> is_mat out B R \<and>
           (\<forall>j<out. \<forall>n<B. R ! j ! n = (\<Sum>i<k. L ! i ! n * J ! j ! i ! n))"
proof -
  let ?R = "map (\<lambda>Jj. map (\<lambda>n. sum_list (map2 (\<lambda>Lrow Jrow. Lrow ! n * Jrow ! n) L Jj)) [0..<ncols L]) J"
  have s: "nrows L = k" "ncols L = B" using L k by (simp_all add: is_mat_nrows is_mat_ncols)
  have Jj: "is_mat k B (J ! j)" if "j < out" for j
    using J that by (simp add: list_all_length)
  have chk: "list_all (\<lambda>Jj. nrows Jj = nrows L \<and> list_all (\<lambda>row. length row = ncols L) Jj) J"
    using J(2) L by (simp add: list_all_length is_mat_def nrows_def s(2))
  have "is_mat out B ?R" by (rule is_matI) (simp_all add: J(1) s)
  moreover have "?R ! j ! n = (\<Sum>i<k. L ! i ! n * J ! j ! i ! n)" if "j < out" "n < B" for j n
  proof -
    have len: "length L = k" "length (J ! j) = k"
      using L Jj[OF that(1)] by (simp_all add: is_mat_def)
    have "?R ! j ! n = sum_list (map2 (\<lambda>Lrow Jrow. Lrow ! n * Jrow ! n) L (J ! j))"
      using that by (simp add: J(1) s)
    also have "\<dots> = (\<Sum>i<k. L ! i ! n * J ! j ! i ! n)"
      using len by (rule sum_list_map2_nth)
    finally show ?thesis .
  qed
  ultimately show ?thesis using chk by (auto simp: np_einsum_in_jin_jn_def)
qed

lemma output_delta_ok:
  assumes dL: "is_mat out B dLoss" and ok: "derivative_ok g out B dAct" and out: "0 < out"
  shows "\<exists>deltaL. output_delta g dLoss dAct = Inr deltaL \<and> is_mat out B deltaL \<and>
           (\<forall>j<out. \<forall>n<B. deltaL ! j ! n = claimed_deltaL g out dLoss dAct j n)"
proof (cases dAct)
  case (Arr3 J)
  with ok have sm: "is_softmax g" and J: "length J = out" "list_all (is_mat out B) J"
    by (simp_all add: derivative_ok_def)
  from np_einsum_ok[OF dL J out] show ?thesis
    using Arr3 sm by (simp add: output_delta_def claimed_deltaL_def)
next
  case (Arr2 D)
  with ok have sm: "\<not> is_softmax g" and D: "is_mat out B D"
    by (simp_all add: derivative_ok_def)
  from np_broadcast_same[OF D dL out, of "(*)"] show ?thesis
    using Arr2 sm by (simp add: output_delta_def claimed_deltaL_def)
qed

lemma softmax_at_zero_simps:
  "act_eval softmax_at_zero z = Inr [[1 / 2], [1 / 2]]"
  "act_deriv softmax_at_zero z = Inr (Arr3 [[[1 / 4], [- 1 / 4]], [[- 1 / 4], [1 / 4]]])"
  "is_softmax softmax_at_zero = True"
  by (simp_all add: softmax_at_zero_def)

lemma example_softmax_net_eq:
  "example_softmax_net = \<lparr>items =
       [input_layer\<lparr>layer_a := Some [[1]]\<rparr>,
        (dense [[0], [0]] [[0], [0]])\<lparr>layer_g := Some softmax_at_zero,
           layer_z := Some [[0], [0]], layer_a := Some [[1 / 2], [1 / 2]]\<rparr>],
     layers = [], epoch = 0, verbose = False, softmax = Some True, batch_norm = Some False,
     lr = Some 1, loss_fct = Some squared_loss, grads_attr = None, n_attr = None, d_attr = None\<rparr>"
  by (simp add: example_softmax_net_def net_defs ex_defs softmax_at_zero_simps np_defs bind_simps
      cong: bindE_weak_cong bindS_weak_cong)

text \<open>
  C2: in \<open>_backprop_last_layer\<close>, on a network whose final layer has cached \<open>z\<close> and
  \<open>a\<close>, with loss derivative \<open>dLoss\<close> of shape \<open>out \<times> B\<close> and a well-formed activation
  derivative \<open>dAct\<close>, the call returns \<open>deltaL\<close> with
  \<open>deltaL[j,n] = \<Sum>i. dLoss[i,n] \<cdot> dAct[j,i,n]\<close> when the final activation is the softmax
  object, and \<open>deltaL[j,n] = dAct[j,n] \<cdot> dLoss[j,n]\<close> for every other activation.
\<close>

theorem backprop_last_layer_delta:
  assumes f: "loss_fct self = Some f"
    and len: "2 \<le> length (items self)"
    and ypred: "layer_a (last (items self)) = Some ypred"
    and dL: "loss_derivative f ypred y False = Inr dLoss" "is_mat out B dLoss"
    and g: "layer_g (last (items self)) = Some g"
    and z: "layer_z (last (items self)) = Some z"
    and dA: "act_deriv g z = Inr dAct" "derivative_ok g out B dAct"
    and x: "ncols x = B"
    and a: "layer_a (items self ! (length (items self) - 2)) = Some a_prev" "is_mat p B a_prev"
    and pos: "0 < out" "0 < B" "0 < p"
  shows "\<exists>deltaL. fst (backprop_last_layer x y self) = Inr deltaL \<and> is_mat out B deltaL \<and>
           (\<forall>j<out. \<forall>n<B. deltaL ! j ! n = claimed_deltaL g out dLoss dAct j n)"
proof -
  from output_delta_ok[OF dL(2) dA(2) pos(1)] obtain deltaL where
    d: "output_delta g dLoss dAct = Inr deltaL" "is_mat out B deltaL"
       "\<forall>j<out. \<forall>n<B. deltaL ! j ! n = claimed_deltaL g out dLoss dAct j n" by blast
  have AT: "is_mat B p (np_T a_prev)" using a(2) pos(3) by (rule np_T_is_mat)
  from np_dot_ok[OF d(2) AT pos(1) pos(2)] obtain da where
    da: "np_dot deltaL (np_T a_prev) = Inr da" by blast
  have ne: "items self \<noteq> []" "\<not> length (items self) < 2" using len by auto
  have "fst (backprop_last_layer x y self) = Inr deltaL"
    using f ne ypred dL(1) g z dA(1) d(1) x pos(2) a(1) da
    by (simp add: backprop_last_layer_def bind_simps attr_def py_inv_def Let_def)
  then show ?thesis using d(2,3) by blast
qed

theorem backprop_last_layer_delta_witness:
  "loss_fct example_softmax_net = Some squared_loss \<and>
   2 \<le> length (items example_softmax_net) \<and>
   layer_a (last (items example_softmax_net)) = Some [[1 / 2], [1 / 2]] \<and>
   loss_derivative squared_loss [[1 / 2], [1 / 2]] [[1], [0]] False = Inr [[- 1 / 2], [1 / 2]] \<and>
   is_mat 2 1 [[- 1 / 2], [1 / 2]] \<and>
   layer_g (last (items example_softmax_net)) = Some softmax_at_zero \<and>
   layer_z (last (items example_softmax_net)) = Some [[0], [0]] \<and>
   act_deriv softmax_at_zero [[0], [0]] = Inr (Arr3 [[[1 / 4], [- 1 / 4]], [[- 1 / 4], [1 / 4]]]) \<and>
   derivative_ok softmax_at_zero 2 1 (Arr3 [[[1 / 4], [- 1 / 4]], [[- 1 / 4], [1 / 4]]]) \<and>
   ncols [[1]] = 1 \<and>
   layer_a (items example_softmax_net ! (length (items example_softmax_net) - 2)) = Some [[1]] \<and>
   is_mat 1 1 [[1]] \<and>
   (\<exists>deltaL. fst (backprop_last_layer [[1]] [[1], [0]] example_softmax_net) = Inr deltaL \<and>
      is_mat 2 1 deltaL \<and>
      (\<forall>j<2. \<forall>n<1. deltaL ! j ! n =
         claimed_deltaL softmax_at_zero 2 [[- 1 / 2], [1 / 2]]
           (Arr3 [[[1 / 4], [- 1 / 4]], [[- 1 / 4], [1 / 4]]]) j n))"
proof -
  have h1: "loss_fct example_softmax_net = Some squared_loss"
    and h2: "2 \<le> length (items example_softmax_net)"
    and h3: "layer_a (last (items example_softmax_net)) = Some [[1 / 2], [1 / 2]]"
    and h6: "layer_g (last (items example_softmax_net)) = Some softmax_at_zero"
    and h7: "layer_z (last (items example_softmax_net)) = Some [[0], [0]]"
    and h11: "layer_a (items example_softmax_net ! (length (items example_softmax_net) - 2)) = Some [[1]]"
    by (simp_all add: example_softmax_net_eq dense_def input_layer_def)
  have h4: "loss_derivative squared_loss [[1 / 2], [1 / 2]] [[1], [0]] False = Inr [[- 1 / 2], [1 / 2]]"
    by (simp add: squared_loss_simps np_defs)
  have h5: "is_mat 2 1 [[- 1 / 2], [1 / 2]]" and h12: "is_mat 1 1 [[1]]"
    by (simp_all add: is_mat_def)
  have h8: "act_deriv softmax_at_zero [[0], [0]] = Inr (Arr3 [[[1 / 4], [- 1 / 4]], [[- 1 / 4], [1 / 4]]])"
    by (simp add: softmax_at_zero_simps)
  have h9: "derivative_ok softmax_at_zero 2 1 (Arr3 [[[1 / 4], [- 1 / 4]], [[- 1 / 4], [1 / 4]]])"
    by (simp add: derivative_ok_def softmax_at_zero_simps is_mat_def)
  have h10: "ncols [[1]] = 1" by (simp add: ncols_def)
  have pos: "(0::nat) < 2" "(0::nat) < 1" by simp_all
  from backprop_last_layer_delta[OF h1 h2 h3 h4 h5 h6 h7 h8 h9 h10 h11 h12 pos(1) pos(2) pos(2)]
  show ?thesis using h1 h2 h3 h4 h5 h6 h7 h8 h9 h10 h11 h12 by blast
qed

section \<open>Gradient checking\<close>

lemma valid_put: "valid_idx lid idx Ws \<Longrightarrow> valid_idx lid idx (put lid idx v Ws)"
  by (auto simp: valid_idx_def put_def split: option.splits)

lemma put_put: "valid_idx lid idx Ws \<Longrightarrow> put lid idx v2 (put lid idx v1 Ws) = put lid idx v2 Ws"
  by (auto simp: valid_idx_def put_def split: option.splits)

lemma get_weight_weights:
  "get_weight lid idx self =
     (if length (weights self) \<le> lid then Inl IndexError
      else case weights self ! lid of
             None \<Rightarrow> Inl AttributeError
           | Some w \<Rightarrow>
               if fst idx < length w \<and> snd idx < length (w ! fst idx)
               then Inr (w ! fst idx ! snd idx) else Inl IndexError)"
  by (simp add: get_weight_def weights_def)

lemma get_weight_valid: "get_weight lid idx self = Inr w0 \<Longrightarrow> valid_idx lid idx (weights self)"
  by (auto simp: get_weight_weights valid_idx_def split: if_splits option.splits)

lemma put_same:
  "get_weight lid idx self = Inr w0 \<Longrightarrow> put lid idx w0 (weights self) = weights self"
  by (auto simp: get_weight_weights put_def list_update_same_conv split: if_splits option.splits)

lemma get_weight_put:
  "valid_idx lid idx Ws \<Longrightarrow> weights self = put lid idx v Ws \<Longrightarrow> get_weight lid idx self = Inr v"
  by (auto simp: get_weight_weights valid_idx_def put_def split: option.splits)

lemma set_weight_valid:
  assumes "valid_idx lid idx (weights self)"
  shows "fst (set_weight lid idx v self) = Inr () \<and>
         weights (snd (set_weight lid idx v self)) = put lid idx v (weights self)"
  using assms
  by (auto simp: set_weight_def valid_idx_def put_def weights_def map_update split: option.splits)

lemma layer_call_w: "layer_w (snd (layer_call l a)) = layer_w l"
  by (simp add: layer_call_def forward_def bindE_def attr_def Let_def split: option.splits sum.splits)

lemma forward_layers_w: "map layer_w (snd (forward_layers ls a)) = map layer_w ls"
proof (induction ls arbitrary: a)
  case Nil
  then show ?case by simp
next
  case (Cons l ls)
  obtain r l' where lc: "layer_call l a = (r, l')" by (cases "layer_call l a")
  have l': "layer_w l' = layer_w l" using layer_call_w[of l a] lc by simp
  show ?case
  proof (cases r)
    case (Inl e)
    then show ?thesis using lc l' by simp
  next
    case (Inr a')
    obtain r2 ls' where fl: "forward_layers ls a' = (r2, ls')" by (cases "forward_layers ls a'")
    have "map layer_w ls' = map layer_w ls" using Cons.IH[of a'] fl by simp
    then show ?thesis using lc l' Inr fl by simp
  qed
qed

lemma forward_step_weights: "weights (snd (forward_step a self)) = weights self"
proof (cases "items self")
  case Nil
  then show ?thesis by (simp add: forward_step_def)
next
  case (Cons l0 ls)
  obtain r ls' where fl: "forward_layers (l0\<lparr>layer_a := Some a\<rparr> # ls) a = (r, ls')"
    by (cases "forward_layers (l0\<lparr>layer_a := Some a\<rparr> # ls) a")
  have "map layer_w ls' = map layer_w (l0\<lparr>layer_a := Some a\<rparr> # ls)"
    using forward_layers_w[of "l0\<lparr>layer_a := Some a\<rparr> # ls" a] fl by (simp del: forward_layers.simps)
  then show ?thesis using Cons fl
    by (simp add: forward_step_def weights_def del: forward_layers.simps)
qed

lemma get_loss_weights: "weights (snd (get_loss x y self)) = weights self"
  using forward_step_weights[of x self]
  by (cases "forward_step x self")
     (auto simp: get_loss_def bindS_def bindE_def split: sum.splits)

lemma perturb_loop_weights:
  assumes "valid_idx lid idx Ws" and "weights self = put lid idx v Ws"
    and "perturb_loop x y eps lid idx w0 signs cost self = (r, self')"
  shows "\<exists>v'. weights self' = put lid idx v' Ws \<and>
           (case r of
              Inr _ \<Rightarrow> v' = (if signs = [] then v else w0 + last signs * eps)
            | Inl _ \<Rightarrow> v' \<in> (\<lambda>sg. w0 + sg * eps) ` set signs)"
  using assms
proof (induction signs arbitrary: cost self v)
  case Nil
  then show ?case by auto
next
  case (Cons sg signs)
  let ?v1 = "w0 + sg * eps"
  define self1 where "self1 = snd (set_weight lid idx ?v1 self)"
  have val: "valid_idx lid idx (weights self)"
    using Cons.prems(1,2) by (simp add: valid_put)
  have sw: "set_weight lid idx ?v1 self = (Inr (), self1)"
    using set_weight_valid[OF val, of ?v1] by (simp add: self1_def prod_eq_iff)
  have w1: "weights self1 = put lid idx ?v1 Ws"
    using set_weight_valid[OF val, of ?v1] Cons.prems(1,2) by (simp add: self1_def put_put)
  obtain r2 self2 where gl: "get_loss x y self1 = (r2, self2)" by (cases "get_loss x y self1")
  have w2: "weights self2 = put lid idx ?v1 Ws"
    using get_loss_weights[of x y self1] gl w1 by simp
  show ?case
  proof (cases r2)
    case (Inl e)
    then have "r = Inl e" "self' = self2"
      using Cons.prems(3) sw gl by (simp_all add: bind_simps)
    then show ?thesis using w2 by auto
  next
    case (Inr lossv)
    then have rest: "perturb_loop x y eps lid idx w0 signs (cost + sg * lossv) self2 = (r, self')"
      using Cons.prems(3) sw gl by (simp add: bind_simps)
    from Cons.IH[OF Cons.prems(1) w2 rest] obtain v' where
      v': "weights self' = put lid idx v' Ws"
        "case r of Inr _ \<Rightarrow> v' = (if signs = [] then ?v1 else w0 + last signs * eps)
                 | Inl _ \<Rightarrow> v' \<in> (\<lambda>sg. w0 + sg * eps) ` set signs" by blast
    show ?thesis using v' by (auto split: sum.splits)
  qed
qed

lemma example_net_eq:
  "example_net rate = \<lparr>items = [input_layer, dense [[2]] [[0]]],
     layers = [], epoch = 0, verbose = False, softmax = None, batch_norm = Some False,
     lr = Some rate, loss_fct = Some squared_loss, grads_attr = None, n_attr = None, d_attr = None\<rparr>"
  by (simp add: example_net_def net_defs ex_defs np_defs bind_simps
      cong: bindE_weak_cong bindS_weak_cong)

text \<open>
  C3 (as the code has it). A call \<open>gradient_check(x, ytrue, eps, layer_id, weight_idx)\<close>
  that returns leaves every weight matrix exactly as it was: the element is written
  back from the saved value. When the call raises after the element was read and
  \<open>eps\<close> is not zero, the exception came from a loss evaluation and the element is
  left at the perturbed value \<open>w_original + eps\<close> or \<open>w_original - eps\<close>: the restoring
  assignment is not reached.
\<close>

theorem gradient_check_restores:
  "(\<forall>gradient. fst (gradient_check x ytrue eps lid idx self) = Inr gradient \<longrightarrow>
       map layer_w (items (snd (gradient_check x ytrue eps lid idx self))) = map layer_w (items self)) \<and>
   (\<forall>e w_original. fst (gradient_check x ytrue eps lid idx self) = Inl e \<and>
       get_weight lid idx self = Inr w_original \<and> eps \<noteq> 0 \<longrightarrow>
       get_weight lid idx (snd (gradient_check x ytrue eps lid idx self)) = Inr (w_original + eps) \<or>
       get_weight lid idx (snd (gradient_check x ytrue eps lid idx self)) = Inr (w_original - eps))"
proof (cases "get_weight lid idx self")
  case (Inl e)
  then show ?thesis by (simp add: gradient_check_def bind_simps)
next
  case (Inr w0)
  have val: "valid_idx lid idx (weights self)" using Inr by (rule get_weight_valid)
  have start: "weights self = put lid idx w0 (weights self)" using Inr by (simp add: put_same)
  obtain r self1 where pl: "perturb_loop x ytrue eps lid idx w0 [1, -1] 0 self = (r, self1)"
    by (cases "perturb_loop x ytrue eps lid idx w0 [1, -1] 0 self")
  from perturb_loop_weights[OF val start pl] obtain v' where
    v': "weights self1 = put lid idx v' (weights self)"
      "case r of Inr _ \<Rightarrow> v' = (if [1, - 1 :: real] = [] then w0 else w0 + last [1, - 1] * eps)
               | Inl _ \<Rightarrow> v' \<in> (\<lambda>sg. w0 + sg * eps) ` set [1, - 1]"
    by blast
  show ?thesis
  proof (cases r)
    case (Inl e)
    then have gc: "gradient_check x ytrue eps lid idx self = (Inl e, self1)"
      using Inr pl by (simp add: gradient_check_def bind_simps)
    have "v' = w0 + eps \<or> v' = w0 - eps" using v'(2) Inl by auto
    then have "get_weight lid idx self1 = Inr (w0 + eps) \<or> get_weight lid idx self1 = Inr (w0 - eps)"
      using get_weight_put[OF val v'(1)] by auto
    then show ?thesis using gc Inr by simp
  next
    case r: (Inr cost)
    have v'eq: "v' = w0 - eps" using v'(2) r by simp
    have val1: "valid_idx lid idx (weights self1)" using v'(1) val by (simp add: valid_put)
    define self2 where "self2 = snd (set_weight lid idx w0 self1)"
    have sw: "set_weight lid idx w0 self1 = (Inr (), self2)"
      using set_weight_valid[OF val1, of w0] by (simp add: self2_def prod_eq_iff)
    have "weights self2 = put lid idx w0 (weights self)"
      using set_weight_valid[OF val1, of w0] v'(1) val by (simp add: self2_def put_put)
    then have w2: "weights self2 = weights self" using start by simp
    have "snd (gradient_check x ytrue eps lid idx self) = self2"
      using Inr pl r sw by (simp add: gradient_check_def bind_simps)
    moreover have "\<exists>res. fst (gradient_check x ytrue eps lid idx self) = res \<and>
        (res = Inl ZeroDivisionError \<and> eps = 0 \<or> (\<exists>gr. res = Inr gr))"
      using Inr pl r sw by (simp add: gradient_check_def bind_simps)
    ultimately show ?thesis using w2 by (auto simp: weights_def)
  qed
qed

theorem gradient_check_restores_witness:
  "fst (gradient_check [[1]] [[5]] (1 / 10) 1 (0, 0) (example_net 1)) = Inr (- 3) \<and>
   map layer_w (items (snd (gradient_check [[1]] [[5]] (1 / 10) 1 (0, 0) (example_net 1))))
     = map layer_w (items (example_net 1)) \<and>
   fst (gradient_check [[1, 2]] [[1, 2, 3]] (1 / 10) 1 (0, 0) (example_net 1)) = Inl ValueError \<and>
   get_weight 1 (0, 0) (example_net 1) = Inr 2 \<and> (1 / 10 :: real) \<noteq> 0 \<and>
   (get_weight 1 (0, 0) (snd (gradient_check [[1, 2]] [[1, 2, 3]] (1 / 10) 1 (0, 0) (example_net 1)))
      = Inr (2 + 1 / 10) \<or>
    get_weight 1 (0, 0) (snd (gradient_check [[1, 2]] [[1, 2, 3]] (1 / 10) 1 (0, 0) (example_net 1)))
      = Inr (2 - 1 / 10))"
proof -
  have good: "fst (gradient_check [[1]] [[5]] (1 / 10) 1 (0, 0) (example_net 1)) = Inr (- 3)"
    by (simp add: example_net_eq net_defs ex_defs np_defs bind_simps
        cong: bindE_weak_cong bindS_weak_cong)
  have bad: "fst (gradient_check [[1, 2]] [[1, 2, 3]] (1 / 10) 1 (0, 0) (example_net 1)) = Inl ValueError"
    by (simp add: example_net_eq net_defs ex_defs np_defs bind_simps
        cong: bindE_weak_cong bindS_weak_cong)
  have w: "get_weight 1 (0, 0) (example_net 1) = Inr 2"
    by (simp add: example_net_eq get_weight_def dense_def)
  have eps: "(1 / 10 :: real) \<noteq> 0" by simp
  show ?thesis
    using gradient_check_restores[of "[[1]]" "[[5]]" "1 / 10" 1 "(0, 0)" "example_net 1"]
      gradient_check_restores[of "[[1, 2]]" "[[1, 2, 3]]" "1 / 10" 1 "(0, 0)" "example_net 1"]
      good bad w eps
    by blast
qed

text \<open>
  C3 as stated fails: when the loss evaluation raises (here the loss callable, on a
  \<open>ytrue\<close> of three columns against a prediction of two), the weight \<open>2\<close> is left at
  \<open>2 + eps = 21/10\<close>.
\<close>

theorem gradient_check_raise_counterexample:
  "get_weight 1 (0, 0) (example_net 1) = Inr 2 \<and>
   fst (gradient_check [[1, 2]] [[1, 2, 3]] (1 / 10) 1 (0, 0) (example_net 1)) = Inl ValueError \<and>
   get_weight 1 (0, 0) (snd (gradient_check [[1, 2]] [[1, 2, 3]] (1 / 10) 1 (0, 0) (example_net 1)))
     = Inr (21 / 10)"
  by (simp add: example_net_eq net_defs ex_defs np_defs bind_simps
      cong: bindE_weak_cong bindS_weak_cong)

section \<open>What the operations leave unchanged\<close>

lemma same_attrs_refl: "same_attrs s s"
  by (simp add: same_attrs_def)

lemma same_attrs_items: "same_attrs s (s\<lparr>items := ls\<rparr>)"
  by (simp add: same_attrs_def)

lemma same_attrs_trans: "same_attrs a b \<Longrightarrow> same_attrs b c \<Longrightarrow> same_attrs a c"
  unfolding same_attrs_def by (metis network.surjective network.update_convs(1))

lemma bindE_rel:
  assumes "R s0 s" and "\<And>v. R s0 (snd (f v))"
  shows "R s0 (snd (bindE m s f))"
  using assms by (cases m) (simp_all add: bind_simps)

lemma bindS_rel:
  assumes "transp R" and "R s (snd m)" and "\<And>v. R (snd m) (snd (f v (snd m)))"
  shows "R s (snd (bindS m f))"
proof (cases m)
  case (Pair r s1)
  show ?thesis
  proof (cases r)
    case (Inl e)
    then show ?thesis using Pair assms(2) by (simp add: bind_simps)
  next
    case (Inr v)
    have "R s (snd (f v (snd m)))"
      using assms(1) assms(2) assms(3)[of v] by (rule transpD)
    then show ?thesis using Pair Inr by (simp add: bind_simps)
  qed
qed

lemma transp_same_attrs: "transp same_attrs"
  by (rule transpI) (rule same_attrs_trans)

lemmas bindS_same = bindS_rel[of same_attrs, OF transp_same_attrs]

lemmas bindE_same = bindE_rel[of same_attrs]

lemma same_if:
  "(c \<Longrightarrow> same_attrs s (snd a)) \<Longrightarrow> (\<not> c \<Longrightarrow> same_attrs s (snd b))
     \<Longrightarrow> same_attrs s (snd (if c then a else b))"
  by simp

lemma same_pair: "same_attrs s s' \<Longrightarrow> same_attrs s (snd (r, s'))"
  by simp

lemmas same_intros = bindE_same bindS_same same_if same_pair same_attrs_refl same_attrs_items

lemma forward_step_same: "same_attrs self (snd (forward_step a self))"
  by (cases "items self")
     (simp_all add: forward_step_def same_attrs_refl same_attrs_items split: prod.splits del: forward_layers.simps)

lemma backprop_last_layer_same: "same_attrs self (snd (backprop_last_layer x y self))"
  unfolding backprop_last_layer_def Let_def
  by (intro same_intros)

lemma backprop_loop_same: "same_attrs self (snd (backprop_loop ls e self))"
proof (induction ls arbitrary: e self)
  case Nil
  show ?case by (simp add: same_attrs_refl)
next
  case (Cons l ls)
  show ?case
    unfolding backprop_loop.simps
  proof (intro bindE_same same_attrs_refl)
    fix a_next w_prev
    obtain r l' where st: "layer_backward_step (items self ! l) a_next w_prev e = (r, l')"
      by (cases "layer_backward_step (items self ! l) a_next w_prev e")
    show "same_attrs self (snd (case layer_backward_step (items self ! l) a_next w_prev e of
            (Inl e, l') \<Rightarrow> (Inl e, self\<lparr>items := (items self)[l := l']\<rparr>)
          | (Inr error, l') \<Rightarrow> backprop_loop ls error (self\<lparr>items := (items self)[l := l']\<rparr>)))"
      using st same_attrs_trans[OF same_attrs_items Cons.IH]
      by (cases r) (simp_all add: same_attrs_items)
  qed
qed

lemma backpropagation_same: "same_attrs self (snd (backpropagation x y self))"
  unfolding backpropagation_def
  by (intro same_intros backprop_last_layer_same backprop_loop_same)

lemma train_on_batch_same: "same_attrs self (snd (train_on_batch x y self))"
  unfolding train_on_batch_def
  by (intro same_intros forward_step_same backpropagation_same)

lemma update_weights_same: "same_attrs self (snd (update_weights self))"
  by (simp add: update_weights_def same_attrs_items split: prod.splits)

lemma get_loss_same: "same_attrs self (snd (get_loss x y self))"
  unfolding get_loss_def
  by (intro same_intros forward_step_same)

lemma set_weight_same: "same_attrs self (snd (set_weight lid idx v self))"
  by (simp add: set_weight_def same_attrs_refl same_attrs_items split: option.splits)

lemma perturb_loop_same: "same_attrs self (snd (perturb_loop x y eps lid idx w0 signs cost self))"
proof (induction signs arbitrary: cost self)
  case Nil
  show ?case by (simp add: same_attrs_refl)
next
  case (Cons sg signs)
  show ?case
    unfolding perturb_loop.simps
    by (intro same_intros set_weight_same get_loss_same Cons.IH)
qed

lemma gradient_check_same: "same_attrs self (snd (gradient_check x y eps lid idx self))"
  unfolding gradient_check_def
  by (intro same_intros perturb_loop_same set_weight_same)

lemma gradient_checks_loop_same: "same_attrs self (snd (gradient_checks_loop k rnd x y eps self))"
proof (induction k arbitrary: rnd self)
  case 0
  show ?case by (simp add: same_attrs_refl)
next
  case (Suc k)
  show ?case
    unfolding gradient_checks_loop.simps
    by (intro same_intros gradient_check_same Suc.IH)
qed

lemma gradient_checks_same: "same_attrs self (snd (gradient_checks rnd x y checks eps self))"
  unfolding gradient_checks_def
  by (intro same_intros gradient_checks_loop_same)

section \<open>Training\<close>

lemma trace_ext_refl: "trace_ext P st st"
  by (simp add: trace_ext_def)

lemma trace_ext_trans: "trace_ext P a b \<Longrightarrow> trace_ext P b c \<Longrightarrow> trace_ext P a c"
  by (auto simp: trace_ext_def)

lemma trace_ext_called: "P c \<Longrightarrow> trace_ext P st (snd (called c f st))"
  by (simp add: trace_ext_def called_def)

lemma trace_ext_fst: "trace_ext P st (n, snd st)"
  by (simp add: trace_ext_def)

lemma fst_same_refl: "fst_same st st"
  by (simp add: fst_same_def same_attrs_refl)

lemma fst_same_trans: "fst_same a b \<Longrightarrow> fst_same b c \<Longrightarrow> fst_same a c"
  unfolding fst_same_def by (rule same_attrs_trans)

lemma fst_same_called: "(\<And>n. same_attrs n (snd (f n))) \<Longrightarrow> fst_same st (snd (called c f st))"
  by (simp add: fst_same_def called_def)

lemma rel_if:
  "(c \<Longrightarrow> R s (snd a)) \<Longrightarrow> (\<not> c \<Longrightarrow> R s (snd b)) \<Longrightarrow> R s (snd (if c then a else b))"
  by simp

lemma rel_pair: "R s s' \<Longrightarrow> R s (snd (r, s'))"
  by simp

lemma transp_fst_same: "transp fst_same"
  by (rule transpI) (rule fst_same_trans)

lemma transp_trace_ext: "transp (trace_ext P)"
  by (rule transpI) (rule trace_ext_trans)

lemmas fst_same_intros = bindS_rel[of fst_same, OF transp_fst_same]
  bindE_rel[of fst_same] rel_if[of _ fst_same] rel_pair[of fst_same]
  fst_same_refl fst_same_called

lemmas trace_intros = bindS_rel[of "trace_ext P", OF transp_trace_ext]
  bindE_rel[of "trace_ext P"] rel_if[of _ "trace_ext P"]
  rel_pair[of "trace_ext P"] trace_ext_refl for P

lemma fit_batch_same: "fst_same st (snd (fit_batch g rnd m mb locals st))"
  unfolding fit_batch_def
  by (intro fst_same_intros train_on_batch_same get_loss_same gradient_checks_same
      update_weights_same)

lemma fit_batches_same: "fst_same st (snd (fit_batches g rnd mbs locals st))"
proof (induction mbs arbitrary: locals st)
  case Nil
  show ?case by (simp add: fst_same_refl)
next
  case (Cons mb mbs)
  show ?case
    unfolding fit_batches.simps
    by (intro fst_same_intros fit_batch_same Cons.IH)
qed

lemma fit_batch_trace:
  assumes "m < length B" "B ! m = mb"
  shows "trace_ext (gc_ok g B) st (snd (fit_batch g rnd m mb locals st))"
  unfolding fit_batch_def
proof (intro trace_intros trace_ext_called)
  show "gc_ok g B (TrainOnBatch (fst mb) (snd mb))" by (simp add: gc_ok_def)
  show "gc_ok g B (GetLoss (fst mb) (snd mb))" by (simp add: gc_ok_def)
  show "gc_ok g B UpdateWeights" by (simp add: gc_ok_def)
  show "gc_ok g B (GradientChecks (fst mb) (snd mb) (1 / 10 ^ 6) 3)" if "truthy g \<and> m = 1"
    using that assms by (simp add: gc_ok_def)
qed

lemma fit_batches_trace:
  assumes "\<forall>p\<in>set mbs. fst p < length B \<and> B ! fst p = snd p"
  shows "trace_ext (gc_ok g B) st (snd (fit_batches g rnd mbs locals st))"
  using assms
proof (induction mbs arbitrary: locals st)
  case Nil
  show ?case by (simp add: trace_ext_refl)
next
  case (Cons mb mbs)
  have 1: "trace_ext (gc_ok g B) st (snd (fit_batch g rnd (fst mb) (snd mb) locals st))" for locals st
    using Cons.prems by (intro fit_batch_trace) simp_all
  have 2: "trace_ext (gc_ok g B) st (snd (fit_batches g rnd mbs locals st))" for locals st
    using Cons.prems by (intro Cons.IH) simp
  show ?case
    unfolding fit_batches.simps
    by (intro trace_intros 1 2)
qed

lemma zip_upt_nth: "\<forall>p\<in>set (zip [0..<length B] B). fst p < length B \<and> B ! fst p = snd p"
  by (auto simp: in_set_zip)

lemma validation_trace:
  "trace_ext (gc_ok g B) st2
     (snd (case vd of
             None \<Rightarrow> (Inr (), st2)
           | Some (xtest, ytest) \<Rightarrow>
               bindS (called (Call xtest) (forward_step xtest) st2) (\<lambda>a_test st3.
               bindE (np_argmax_axis0 a_test) st3 (\<lambda>_.
               bindS (called (GetLoss xtest ytest) (get_loss xtest ytest) st3) (\<lambda>_ st4.
               (Inr (), st4))))))"
proof (cases vd)
  case None
  then show ?thesis by (simp add: trace_ext_refl)
next
  case (Some p)
  obtain xtest ytest where p: "p = (xtest, ytest)" by (cases p)
  show ?thesis
    unfolding Some p option.case prod.case
    by (intro trace_intros trace_ext_called) (simp_all add: gc_ok_def)
qed

lemma fit_epoch_trace:
  "trace_ext (gc_ok g (mbs x y 1000)) st (snd (fit_epoch mbs rnd x y vd g bound st))"
  unfolding fit_epoch_def Let_def set_lr_def
  by (intro trace_intros validation_trace trace_ext_fst trace_ext_called
        trace_ext_trans[OF trace_ext_fst fit_batches_trace[OF zip_upt_nth]])
     (simp add: gc_ok_def)

lemma fit_epochs_trace:
  "trace_ext (gc_ok g (mbs x y 1000)) st (snd (fit_epochs mbs rnd x y vd g es bound st))"
proof (induction es arbitrary: bound st)
  case Nil
  show ?case by (simp add: trace_ext_refl)
next
  case (Cons e es)
  show ?case
    unfolding fit_epochs.simps
    by (intro trace_intros fit_epoch_trace Cons.IH)
qed

lemma fit_trace:
  "list_all (gc_ok g (mbs x y 1000)) (snd (snd (fit mbs rnd x y epochs bs vd g self)))"
proof -
  have "trace_ext (gc_ok g (mbs x y 1000)) (self, []) (snd (fit mbs rnd x y epochs bs vd g self))"
    unfolding fit_def Let_def
    by (intro trace_intros fit_epochs_trace)
  then show ?thesis by (simp add: trace_ext_def)
qed

lemma keeps_refl: "keeps sel st st"
  by (simp add: keeps_def)

lemma transp_keeps: "transp (keeps sel)"
  by (rule transpI) (simp add: keeps_def)

lemma same_attrs_lr: "same_attrs a b \<Longrightarrow> lr b = lr a"
  unfolding same_attrs_def by (metis network.select_convs(7) network.surjective network.update_convs(1))

lemma same_attrs_layers: "same_attrs a b \<Longrightarrow> layers b = layers a"
  unfolding same_attrs_def by (metis network.select_convs(2) network.surjective network.update_convs(1))

lemma keeps_called:
  assumes "\<And>a b. same_attrs a b \<Longrightarrow> sel b = sel a" and "\<And>n. same_attrs n (snd (f n))"
  shows "keeps sel st (snd (called c f st))"
  using assms by (simp add: keeps_def called_def)

lemma keeps_fst_same:
  assumes "\<And>a b. same_attrs a b \<Longrightarrow> sel b = sel a" and "fst_same st st'"
  shows "keeps sel st st'"
  using assms by (simp add: keeps_def fst_same_def)

lemmas keeps_intros = bindS_rel[of "keeps sel", OF transp_keeps]
  bindE_rel[of "keeps sel"] rel_if[of _ "keeps sel"]
  rel_pair[of "keeps sel"] keeps_refl for sel

lemma validation_keeps:
  assumes "\<And>a b. same_attrs a b \<Longrightarrow> sel b = sel a"
  shows "keeps sel st2
     (snd (case vd of
             None \<Rightarrow> (Inr (), st2)
           | Some (xtest, ytest) \<Rightarrow>
               bindS (called (Call xtest) (forward_step xtest) st2) (\<lambda>a_test st3.
               bindE (np_argmax_axis0 a_test) st3 (\<lambda>_.
               bindS (called (GetLoss xtest ytest) (get_loss xtest ytest) st3) (\<lambda>_ st4.
               (Inr (), st4))))))"
proof (cases vd)
  case None
  then show ?thesis by (simp add: keeps_refl)
next
  case (Some p)
  obtain xtest ytest where p: "p = (xtest, ytest)" by (cases p)
  show ?thesis
    unfolding Some p option.case prod.case
    by (intro keeps_intros keeps_called[OF assms] forward_step_same get_loss_same)
qed

lemma fit_epoch_lr:
  assumes "lr (fst st) = Some v"
  shows "lr (fst (snd (fit_epoch mbs rnd x y vd g bound st))) = Some (v * (993 / 1000))"
proof -
  let ?st0 = "set_lr (v * (993 / 1000)) st"
  have "keeps lr ?st0 (snd (fit_epoch mbs rnd x y vd g bound st))"
    unfolding fit_epoch_def Let_def using assms
    apply (simp add: attr_def bind_simps)
    apply (intro keeps_intros validation_keeps keeps_called[of lr] same_attrs_lr forward_step_same
        keeps_fst_same[of lr, OF _ fit_batches_same])
     apply (simp_all add: keeps_def same_attrs_lr)
    done
  then show ?thesis by (simp add: keeps_def set_lr_def)
qed

lemma fit_epoch_layers:
  "layers (fst (snd (fit_epoch mbs rnd x y vd g bound st))) = layers (fst st)"
proof -
  have "keeps layers st (snd (fit_epoch mbs rnd x y vd g bound st))"
    unfolding fit_epoch_def Let_def
    apply (intro keeps_intros validation_keeps keeps_called[of layers] same_attrs_layers forward_step_same)
     apply (rule transpD[OF transp_keeps, of layers _ "set_lr _ st"])
      apply (simp add: keeps_def set_lr_def)
     apply (rule keeps_fst_same[of layers, OF _ fit_batches_same])
     apply (simp_all add: keeps_def same_attrs_layers)
    done
  then show ?thesis by (simp add: keeps_def)
qed

lemma fit_epochs_lr:
  assumes "lr (fst st) = Some v"
  shows "\<exists>k\<le>length es.
           lr (fst (snd (fit_epochs mbs rnd x y vd g es bound st))) = Some (v * (993 / 1000) ^ k) \<and>
           (fst (fit_epochs mbs rnd x y vd g es bound st) = Inr () \<longrightarrow> k = length es)"
  using assms
proof (induction es arbitrary: bound st v)
  case Nil
  then show ?case by simp
next
  case (Cons e es)
  obtain r st1 where ep: "fit_epoch mbs (rnd e) x y vd g bound st = (r, st1)"
    by (cases "fit_epoch mbs (rnd e) x y vd g bound st")
  have lr1: "lr (fst st1) = Some (v * (993 / 1000))"
    using fit_epoch_lr[OF Cons.prems, of mbs "rnd e" x y vd g bound] ep by simp
  show ?case
  proof (cases r)
    case (Inl err)
    then have "fit_epochs mbs rnd x y vd g (e # es) bound st = (Inl err, st1)"
      using ep by (simp add: bind_simps)
    then show ?thesis using lr1 by (intro exI[of _ 1]) simp
  next
    case (Inr bound1)
    then have unfold: "fit_epochs mbs rnd x y vd g (e # es) bound st
        = fit_epochs mbs rnd x y vd g es bound1 st1"
      using ep by (simp add: bind_simps)
    from Cons.IH[OF lr1, of bound1] obtain k where
      k: "k \<le> length es"
        "lr (fst (snd (fit_epochs mbs rnd x y vd g es bound1 st1)))
           = Some (v * (993 / 1000) * (993 / 1000) ^ k)"
        "fst (fit_epochs mbs rnd x y vd g es bound1 st1) = Inr () \<longrightarrow> k = length es"
      by blast
    show ?thesis
      using k unfold by (intro exI[of _ "Suc k"]) simp
  qed
qed

lemma decay_le:
  fixes v :: real
  assumes "0 \<le> v"
  shows "v * (993 / 1000) ^ k \<le> v"
proof -
  have "(993 / 1000 :: real) ^ k \<le> 1" by (rule power_le_one) simp_all
  then show ?thesis using assms by (simp add: mult_left_le)
qed

lemma fit_batches_lr: "lr (fst (snd (fit_batches g rnd bs locals st))) = lr (fst st)"
  using fit_batches_same[of st g rnd bs locals] by (simp add: fst_same_def same_attrs_lr)

lemma fit_snd_cases:
  "snd (fit mbs rnd x y epochs bs vd g self) = (self, []) \<or>
   fit mbs rnd x y epochs bs vd g self
     = fit_epochs mbs rnd x y vd g [1..<nat epochs] (\<not> truthy g) (self, [])"
  unfolding fit_def Let_def
  by (cases "np_argmax_axis0 y";
      cases "case vd of None \<Rightarrow> Inr ()
             | Some (xtest, ytest) \<Rightarrow>
                 if ncols xtest = ncols ytest then np_argmax_axis0 ytest else Inl AssertionError")
     (simp_all add: bind_simps)

lemma unit_batches_example: "unit_batches [[1, 2]] [[5, 7]] 1000 = [([[1]], [[5]]), ([[2]], [[7]])]"
  by (simp add: unit_batches_def minibatches_def columns_def ncols_def upt_rec)

lemma gradient_checks_loop_3:
  "gradient_checks_loop 3 = gradient_checks_loop (Suc (Suc (Suc 0)))"
  by (simp add: numeral_3_eq_3)

lemmas eval_simps = net_defs ex_defs np_defs bind_simps upt_rec gradient_checks_loop_3

text \<open>
  C7: \<open>fit\<close> called with \<open>epochs = 1\<close> runs the epoch loop over \<open>range(1, 1)\<close>, which is
  empty: whatever the other arguments, and whether or not the checks before the loop
  raise, it makes no call at all (no training step, loss evaluation, gradient check,
  weight update or forward pass) and leaves the network, with its learning rate and
  epoch counter, exactly as it was.
\<close>

theorem fit_one_epoch:
  "snd (fit mbs rnd x y 1 bs vd g self) = (self, [])"
  using fit_snd_cases[of mbs rnd x y 1 bs vd g self] by auto

theorem fit_one_epoch_witness:
  "snd (fit minibatches (\<lambda>e k. 0) [[1, 2]] [[5, 7]] 1 128 None (Some 3) (example_net 1))
     = (example_net 1, [])"
  by (rule fit_one_epoch)

lemma fit_batch_size_unused:
  "fit mbs rnd x y epochs bs vd g self = fit mbs rnd x y epochs bs' vd g self"
  by (simp add: fit_def)

text \<open>
  C4: \<open>fit\<close> hands the constant \<open>1000\<close> to \<open>misc.minibatches\<close> and never reads its
  \<open>batch_size\<close> argument. With two training examples and \<open>batch_size = 1\<close>, minibatches
  of the configured size would be the two single examples; the one epoch of \<open>fit\<close>
  makes a single training step, on both examples at once.
\<close>

theorem fit_ignores_batch_size:
  "minibatches [[1, 2]] [[5, 7]] 1 = [([[1]], [[5]]), ([[2]], [[7]])] \<and>
   fst (fit minibatches (\<lambda>e k. 0) [[1, 2]] [[5, 7]] 2 1 None None (example_net (1 / 10))) = Inr () \<and>
   snd (snd (fit minibatches (\<lambda>e k. 0) [[1, 2]] [[5, 7]] 2 1 None None (example_net (1 / 10))))
     = [TrainOnBatch [[1, 2]] [[5, 7]], GetLoss [[1, 2]] [[5, 7]], UpdateWeights, Call [[1, 2]]]"
  by (simp add: example_net_eq eval_simps cong: bindE_weak_cong bindS_weak_cong)

text \<open>
  C8 (as the code has it). For a network with learning rate \<open>v\<close>: every executed epoch,
  however it ends (even when its first minibatch raises), leaves the rate at
  \<open>0.993 \<cdot> v\<close>; the minibatch loop itself never changes the rate, so the decay precedes
  the minibatches; after \<open>fit\<close> the rate is \<open>v \<cdot> 0.993\<^sup>k\<close>, with \<open>k\<close> the number of epochs
  begun, which is \<open>epochs - 1\<close> when \<open>fit\<close> returns; and for \<open>v \<ge> 0\<close> this is at most \<open>v\<close>.
\<close>

theorem fit_learning_rate:
  assumes "lr self = Some v"
  shows "(\<forall>r t bound. lr (fst (snd (fit_epoch mbs r x y vd g bound (self, t))))
             = Some (v * (993 / 1000))) \<and>
         (\<forall>r bs' locals st. lr (fst (snd (fit_batches g r bs' locals st))) = lr (fst st)) \<and>
         (\<exists>k\<le>nat epochs - 1.
            lr (fst (snd (fit mbs rnd x y epochs bs vd g self))) = Some (v * (993 / 1000) ^ k) \<and>
            (fst (fit mbs rnd x y epochs bs vd g self) = Inr () \<longrightarrow> k = nat epochs - 1) \<and>
            (0 \<le> v \<longrightarrow> v * (993 / 1000) ^ k \<le> v))"
proof (intro conjI allI)
  fix r t bound
  show "lr (fst (snd (fit_epoch mbs r x y vd g bound (self, t)))) = Some (v * (993 / 1000))"
    using assms by (intro fit_epoch_lr) simp
next
  fix r bs' locals st
  show "lr (fst (snd (fit_batches g r bs' locals st))) = lr (fst st)"
    by (rule fit_batches_lr)
next
  from fit_snd_cases[of mbs rnd x y epochs bs vd g self]
  show "\<exists>k\<le>nat epochs - 1.
            lr (fst (snd (fit mbs rnd x y epochs bs vd g self))) = Some (v * (993 / 1000) ^ k) \<and>
            (fst (fit mbs rnd x y epochs bs vd g self) = Inr () \<longrightarrow> k = nat epochs - 1) \<and>
            (0 \<le> v \<longrightarrow> v * (993 / 1000) ^ k \<le> v)"
  proof
    assume same: "snd (fit mbs rnd x y epochs bs vd g self) = (self, [])"
    show ?thesis
    proof (cases "fst (fit mbs rnd x y epochs bs vd g self) = Inr ()")
      case False
      then show ?thesis using same assms by (intro exI[of _ 0]) simp
    next
      case True
      have "fit mbs rnd x y epochs bs vd g self
          = fit_epochs mbs rnd x y vd g [1..<nat epochs] (\<not> truthy g) (self, [])"
        using True
        unfolding fit_def Let_def
        by (cases "np_argmax_axis0 y";
            cases "case vd of None \<Rightarrow> Inr ()
             | Some (xtest, ytest) \<Rightarrow>
                 if ncols xtest = ncols ytest then np_argmax_axis0 ytest else Inl AssertionError")
           (simp_all add: bind_simps)
      with fit_epochs_lr[of "(self, [])" v "[1..<nat epochs]" mbs rnd x y vd g "\<not> truthy g"] assms
      show ?thesis using decay_le by auto
    qed
  next
    assume "fit mbs rnd x y epochs bs vd g self
          = fit_epochs mbs rnd x y vd g [1..<nat epochs] (\<not> truthy g) (self, [])"
    with fit_epochs_lr[of "(self, [])" v "[1..<nat epochs]" mbs rnd x y vd g "\<not> truthy g"] assms
    show ?thesis using decay_le by auto
  qed
qed

theorem fit_learning_rate_witness:
  "lr (example_net (1 / 10)) = Some (1 / 10) \<and>
   (\<forall>r t bound. lr (fst (snd (fit_epoch minibatches r [[1, 2]] [[5, 7]] None None bound
        (example_net (1 / 10), t)))) = Some (1 / 10 * (993 / 1000))) \<and>
   (\<forall>r bs' locals st. lr (fst (snd (fit_batches None r bs' locals st))) = lr (fst st)) \<and>
   (\<exists>k\<le>nat 3 - 1.
      lr (fst (snd (fit minibatches (\<lambda>e k. 0) [[1, 2]] [[5, 7]] 3 128 None None (example_net (1 / 10)))))
        = Some (1 / 10 * (993 / 1000) ^ k) \<and>
      (fst (fit minibatches (\<lambda>e k. 0) [[1, 2]] [[5, 7]] 3 128 None None (example_net (1 / 10))) = Inr ()
         \<longrightarrow> k = nat 3 - 1) \<and>
      (0 \<le> (1 / 10 :: real) \<longrightarrow> 1 / 10 * (993 / 1000) ^ k \<le> (1 / 10 :: real)))"
proof -
  have h: "lr (example_net (1 / 10)) = Some (1 / 10)"
    by (simp add: example_net_eq)
  from fit_learning_rate[OF h, where mbs = minibatches and x = "[[1, 2]]" and y = "[[5, 7]]"
      and vd = None and g = None and rnd = "\<lambda>e k. 0" and epochs = 3 and bs = 128]
  show ?thesis using h by simp
qed

text \<open>
  C8 as stated fails for a negative learning rate, which \<open>compile\<close> accepts: two
  epochs take the rate from \<open>-1\<close> up to \<open>-0.986049\<close>.
\<close>

theorem fit_negative_rate_counterexample:
  "lr (example_net (- 1)) = Some (- 1) \<and>
   fst (fit minibatches (\<lambda>e k. 0) [[1, 2]] [[5, 7]] 3 128 None None (example_net (- 1))) = Inr () \<and>
   lr (fst (snd (fit minibatches (\<lambda>e k. 0) [[1, 2]] [[5, 7]] 3 128 None None (example_net (- 1)))))
     = Some (- (986049 / 1000000)) \<and>
   (- 1 :: real) < - (986049 / 1000000)"
  by (simp add: example_net_eq eval_simps cong: bindE_weak_cong bindS_weak_cong)

lemma fit_batch_truthy: "truthy g = truthy g' \<Longrightarrow> fit_batch g = fit_batch g'"
  by (intro ext) (simp add: fit_batch_def)

lemma fit_batches_truthy:
  "truthy g = truthy g' \<Longrightarrow> fit_batches g rnd bs = fit_batches g' rnd bs"
proof (induction bs)
  case Nil
  show ?case by (intro ext) simp
next
  case (Cons b bs)
  show ?case
    by (intro ext) (simp add: fit_batch_truthy[OF Cons.prems] Cons.IH[OF Cons.prems])
qed

lemma fit_epoch_truthy: "truthy g = truthy g' \<Longrightarrow> fit_epoch mbs rnd x y vd g = fit_epoch mbs rnd x y vd g'"
  by (intro ext) (simp add: fit_epoch_def fit_batches_truthy[of g g'])

lemma fit_epochs_truthy:
  "truthy g = truthy g' \<Longrightarrow>
     fit_epochs mbs rnd x y vd g es = fit_epochs mbs rnd x y vd g' es"
proof (induction es)
  case Nil
  show ?case by (intro ext) simp
next
  case (Cons e es)
  show ?case
    by (intro ext) (simp add: fit_epoch_truthy[OF Cons.prems] Cons.IH[OF Cons.prems])
qed

lemma fit_truthy:
  "truthy g = truthy g' \<Longrightarrow> fit mbs rnd x y epochs bs vd g self = fit mbs rnd x y epochs bs vd g' self"
  by (simp add: fit_def fit_epochs_truthy[of g g'])

lemma same_shapes_refl: "same_shapes s s"
  by (simp add: same_shapes_def)

lemma transp_same_shapes: "transp same_shapes"
  by (rule transpI) (simp add: same_shapes_def)

lemma shapes_weights: "shapes self = map (map_option (\<lambda>w. (nrows w, ncols w))) (weights self)"
  by (simp add: shapes_def weights_def)

lemma get_loss_shapes: "same_shapes self (snd (get_loss x y self))"
  by (simp add: same_shapes_def shapes_weights get_loss_weights)

lemma ncols_update: "i < length w \<Longrightarrow> ncols (w[i := (w ! i)[j := v]]) = ncols w"
  by (cases w; cases i) (simp_all add: ncols_def)

lemma set_weight_shapes: "same_shapes self (snd (set_weight lid idx v self))"
proof (cases "fst (set_weight lid idx v self)")
  case (Inl e)
  then have "snd (set_weight lid idx v self) = self"
    by (auto simp: set_weight_def split: if_splits option.splits)
  then show ?thesis by (simp add: same_shapes_refl)
next
  case (Inr u)
  then obtain w where w: "lid < length (items self)" "layer_w (items self ! lid) = Some w"
      "fst idx < length w"
    by (auto simp: set_weight_def split: if_splits option.splits)
  let ?w' = "w[fst idx := (w ! fst idx)[snd idx := v]]"
  have eq: "snd (set_weight lid idx v self)
      = self\<lparr>items := (items self)[lid := (items self ! lid)\<lparr>layer_w := Some ?w'\<rparr>]\<rparr>"
    using Inr w by (auto simp: set_weight_def split: if_splits option.splits)
  have "map_option (\<lambda>w. (nrows w, ncols w)) (Some ?w')
      = map_option (\<lambda>w. (nrows w, ncols w)) (layer_w (items self ! lid))"
    using w by (simp add: nrows_def ncols_update)
  then show ?thesis
    using w(1) by (simp add: same_shapes_def shapes_def eq map_update list_update_same_conv)
qed

lemmas shapes_intros = bindS_rel[of same_shapes, OF transp_same_shapes]
  bindE_rel[of same_shapes] rel_if[of _ same_shapes] rel_pair[of same_shapes] same_shapes_refl

lemma perturb_loop_shapes:
  "same_shapes self (snd (perturb_loop x y eps lid idx w0 signs cost self))"
proof (induction signs arbitrary: cost self)
  case Nil
  show ?case by (simp add: same_shapes_refl)
next
  case (Cons sg signs)
  show ?case
    unfolding perturb_loop.simps
    by (intro shapes_intros set_weight_shapes get_loss_shapes Cons.IH)
qed

lemma gradient_check_shapes: "shapes (snd (gradient_check x y eps lid idx self)) = shapes self"
proof -
  have "same_shapes self (snd (gradient_check x y eps lid idx self))"
    unfolding gradient_check_def
    by (intro shapes_intros perturb_loop_shapes set_weight_shapes)
  then show ?thesis by (simp add: same_shapes_def)
qed

lemma sample_pair_shift: "sample_pair (\<lambda>n. rnd (n + 3)) i S = sample_pair rnd (Suc i) S"
  by (simp add: sample_pair_def algebra_simps cong: option.case_cong if_cong)

lemma sampling_step:
  "bindE (np_randint (rnd 0) 1 (length (items self))) self (\<lambda>layer_id.
   bindE (attr (layer_w (items self ! layer_id))) self (\<lambda>w.
   bindE (np_choice (rnd 1) (nrows w)) self (\<lambda>i.
   bindE (np_choice (rnd 2) (ncols w)) self (\<lambda>j. f layer_id (i, j)))))
   = bindE (sample_pair rnd 0 (shapes self)) self (\<lambda>pair. f (fst pair) (snd pair))"
proof (cases "length (items self) \<le> 1")
  case True
  then show ?thesis
    by (simp add: np_randint_def sample_pair_def shapes_def bind_simps)
next
  case False
  let ?l = "1 + rnd 0 mod (length (items self) - 1)"
  have "rnd 0 mod (length (items self) - 1) < length (items self) - 1"
    using False by (intro mod_less_divisor) simp
  then have l: "?l < length (items self)" by simp
  have S: "shapes self ! ?l = map_option (\<lambda>w. (nrows w, ncols w)) (layer_w (items self ! ?l))"
    using l by (simp add: shapes_def del: One_nat_def)
  show ?thesis
  proof (cases "layer_w (items self ! ?l)")
    case None
    then show ?thesis
      using False S
      by (simp add: np_randint_def sample_pair_def attr_def bind_simps shapes_def del: One_nat_def)
  next
    case (Some w)
    then show ?thesis
      using False S
      by (auto simp: np_randint_def np_choice_def sample_pair_def attr_def bind_simps shapes_def
          numeral_2_eq_2 simp del: One_nat_def)
  qed
qed

lemma gradient_checks_loop_sampled:
  "gradient_checks_loop k rnd x y eps self
     = check_pairs (map (\<lambda>i. sample_pair rnd i (shapes self)) [0..<k]) x y eps self"
proof (induction k arbitrary: rnd self)
  case 0
  show ?case by simp
next
  case (Suc k)
  have upt: "[0..<Suc k] = 0 # map Suc [0..<k]"
    by (simp add: upt_conv_Cons map_Suc_upt del: upt_Suc)
  have rest: "gradient_checks_loop k (\<lambda>n. rnd (n + 3)) x y eps s1
      = check_pairs (map (\<lambda>i. sample_pair rnd (Suc i) (shapes self)) [0..<k]) x y eps s1"
    if "shapes s1 = shapes self" for s1
    using Suc.IH[of "\<lambda>n. rnd (n + 3)" s1] that by (simp add: sample_pair_shift)
  have cont: "bindS (gradient_check x y eps l idx self) (\<lambda>gradient self1.
        bindE (get_dw l idx self1) self1 (\<lambda>gb.
        bindS (gradient_checks_loop k (\<lambda>n. rnd (n + 3)) x y eps self1) (\<lambda>rest self2.
        (Inr (gradient # fst rest, gb # snd rest), self2))))
      = bindS (gradient_check x y eps l idx self) (\<lambda>gradient self1.
        bindE (get_dw l idx self1) self1 (\<lambda>gb.
        bindS (check_pairs (map (\<lambda>i. sample_pair rnd (Suc i) (shapes self)) [0..<k]) x y eps self1)
          (\<lambda>rest self2. (Inr (gradient # fst rest, gb # snd rest), self2))))" for l idx
  proof (cases "gradient_check x y eps l idx self")
    case (Pair r s1)
    have s1: "shapes s1 = shapes self"
      using gradient_check_shapes[of x y eps l idx self] Pair by simp
    show ?thesis
      by (cases r) (simp_all add: Pair bind_simps rest[OF s1])
  qed
  let ?F = "\<lambda>l idx. bindS (gradient_check x y eps l idx self) (\<lambda>gradient self1.
        bindE (get_dw l idx self1) self1 (\<lambda>gb.
        bindS (gradient_checks_loop k (\<lambda>n. rnd (n + 3)) x y eps self1) (\<lambda>rest self2.
        (Inr (gradient # fst rest, gb # snd rest), self2))))"
  let ?G = "\<lambda>l idx. bindS (gradient_check x y eps l idx self) (\<lambda>gradient self1.
        bindE (get_dw l idx self1) self1 (\<lambda>gb.
        bindS (check_pairs (map (\<lambda>i. sample_pair rnd (Suc i) (shapes self)) [0..<k]) x y eps self1)
          (\<lambda>rest self2. (Inr (gradient # fst rest, gb # snd rest), self2))))"
  have "gradient_checks_loop (Suc k) rnd x y eps self
      = bindE (sample_pair rnd 0 (shapes self)) self (\<lambda>pair. ?F (fst pair) (snd pair))"
    unfolding gradient_checks_loop.simps by (rule sampling_step[where f = ?F])
  also have "\<dots> = bindE (sample_pair rnd 0 (shapes self)) self (\<lambda>pair. ?G (fst pair) (snd pair))"
    by (simp only: cont)
  also have "\<dots> = check_pairs (map (\<lambda>i. sample_pair rnd i (shapes self)) [0..<Suc k]) x y eps self"
    by (simp only: upt list.map map_map comp_def check_pairs.simps)
  finally show ?case .
qed

lemma upt_3: "[0..<3] = [0, 1, 2]"
  by (simp add: upt_rec numeral_3_eq_3)

lemma gradient_checks_sampled:
  "gradient_checks rnd x y 3 (1 / 10 ^ 6) self = sampled_gradient_checks rnd x y self"
  unfolding gradient_checks_def sampled_gradient_checks_def gradient_checks_loop_sampled
    upt_3 list.map
  by (rule refl)

lemma gradient_checks_sampled_fun:
  "gradient_checks rnd x y 3 (1 / 10 ^ 6) = sampled_gradient_checks rnd x y"
  by (intro ext) (rule gradient_checks_sampled)

lemma fit_batch_eq_sampled: "fit_batch g rnd m mb = fit_batch_sampled g rnd m mb"
  by (intro ext) (simp only: fit_batch_def fit_batch_sampled_def gradient_checks_sampled_fun)

lemma fit_batches_eq_sampled: "fit_batches g rnd bs = fit_batches_sampled g rnd bs"
proof (induction bs)
  case Nil
  show ?case by (intro ext) simp
next
  case (Cons b bs)
  show ?case
    by (intro ext) (simp add: fit_batch_eq_sampled Cons.IH)
qed

lemma fit_epoch_eq_sampled: "fit_epoch mbs rnd x y vd g = fit_epoch_sampled mbs rnd x y vd g"
  by (intro ext) (simp only: fit_epoch_def fit_epoch_sampled_def fit_batches_eq_sampled)

lemma fit_epochs_eq_sampled: "fit_epochs mbs rnd x y vd g es = fit_epochs_sampled mbs rnd x y vd g es"
proof (induction es)
  case Nil
  show ?case by (intro ext) simp
next
  case (Cons e es)
  show ?case
    by (intro ext) (simp add: fit_epoch_eq_sampled Cons.IH)
qed

lemma fit_is_fit_sampled:
  "fit mbs rnd x y epochs bs vd g self = fit_sampled mbs rnd x y epochs bs vd g self"
  by (simp only: fit_def fit_sampled_def fit_epochs_eq_sampled)

text \<open>
  C10: \<open>fit\<close> is \<open>fit_sampled\<close>: its gradient check is the one that samples exactly three
  (layer, element) pairs and checks each with \<open>eps = 10\<^sup>-\<^sup>6\<close>, for the source's
  \<open>gradient_checks\<close> called with \<open>checks = 3\<close> and \<open>eps = 10\<^sup>-\<^sup>6\<close> is
  \<open>sampled_gradient_checks\<close> on every network and for all draws. Every call of
  \<open>gradient_checks\<close> that \<open>fit\<close> makes happens with a truthy
  \<open>gradients_to_check_each_epoch\<close>, on the minibatch of index 1 (so there are at least
  two minibatches), with \<open>eps = 10\<^sup>-\<^sup>6\<close> and \<open>checks = 3\<close>; and \<open>fit\<close> behaves the same for
  every non-zero value of the argument, which is therefore never a number of checks.
\<close>

theorem fit_gradient_checks:
  "fit mbs rnd x y epochs bs vd g self = fit_sampled mbs rnd x y epochs bs vd g self \<and>
   (\<forall>r xb yb s. gradient_checks r xb yb 3 (1 / 10 ^ 6) s = sampled_gradient_checks r xb yb s) \<and>
   (\<forall>xb yb e c.
      GradientChecks xb yb e c \<in> set (snd (snd (fit mbs rnd x y epochs bs vd g self))) \<longrightarrow>
      truthy g \<and> e = 1 / 10 ^ 6 \<and> c = 3 \<and>
      1 < length (mbs x y 1000) \<and> mbs x y 1000 ! 1 = (xb, yb)) \<and>
   (\<forall>k. truthy g \<and> k \<noteq> 0 \<longrightarrow>
      fit mbs rnd x y epochs bs vd (Some k) self = fit mbs rnd x y epochs bs vd g self)"
proof (intro conjI allI impI)
  show "fit mbs rnd x y epochs bs vd g self = fit_sampled mbs rnd x y epochs bs vd g self"
    by (rule fit_is_fit_sampled)
next
  fix r xb yb s
  show "gradient_checks r xb yb 3 (1 / 10 ^ 6) s = sampled_gradient_checks r xb yb s"
    by (rule gradient_checks_sampled)
next
  fix xb yb e c
  assume "GradientChecks xb yb e c \<in> set (snd (snd (fit mbs rnd x y epochs bs vd g self)))"
  then have ok: "gc_ok g (mbs x y 1000) (GradientChecks xb yb e c)"
    using fit_trace[of g mbs x y rnd epochs bs vd self] by (simp add: list_all_iff)
  show "truthy g" "e = 1 / 10 ^ 6" "c = 3" "1 < length (mbs x y 1000)" "mbs x y 1000 ! 1 = (xb, yb)"
    using ok by (simp_all add: gc_ok_def)
next
  fix k :: int
  assume "truthy g \<and> k \<noteq> 0"
  then show "fit mbs rnd x y epochs bs vd (Some k) self = fit mbs rnd x y epochs bs vd g self"
    by (intro fit_truthy) (simp add: truthy_def)
qed

theorem fit_gradient_checks_witness:
  "fit unit_batches (\<lambda>e k. 0) [[1, 2]] [[5, 7]] 2 128 None (Some 5) (example_net (1 / 10))
     = fit_sampled unit_batches (\<lambda>e k. 0) [[1, 2]] [[5, 7]] 2 128 None (Some 5) (example_net (1 / 10)) \<and>
   GradientChecks [[2]] [[7]] (1 / 10 ^ 6) 3 \<in> set (snd (snd
      (fit unit_batches (\<lambda>e k. 0) [[1, 2]] [[5, 7]] 2 128 None (Some 5) (example_net (1 / 10))))) \<and>
   truthy (Some 5) \<and>
   1 < length (unit_batches [[1, 2]] [[5, 7]] 1000) \<and>
   unit_batches [[1, 2]] [[5, 7]] 1000 ! 1 = ([[2]], [[7]]) \<and>
   gradient_checks (\<lambda>k. 0) [[2]] [[7]] 3 (1 / 10 ^ 6)
       (snd (train_on_batch [[2]] [[7]] (example_net (1 / 10))))
     = sampled_gradient_checks (\<lambda>k. 0) [[2]] [[7]]
         (snd (train_on_batch [[2]] [[7]] (example_net (1 / 10)))) \<and>
   sample_pair (\<lambda>k. 0) 0 (shapes (snd (train_on_batch [[2]] [[7]] (example_net (1 / 10)))))
     = Inr (1, 0, 0) \<and>
   fst (gradient_checks_loop 3 (\<lambda>k. 0) [[2]] [[7]] (1 / 10 ^ 6)
          (snd (train_on_batch [[2]] [[7]] (example_net (1 / 10)))))
     = Inr ([- 6, - 6, - 6], [- 6, - 6, - 6]) \<and>
   fst (gradient_checks (\<lambda>k. 0) [[2]] [[7]] 3 (1 / 10 ^ 6)
          (snd (train_on_batch [[2]] [[7]] (example_net (1 / 10))))) = Inr 0 \<and>
   fst (gradient_checks (\<lambda>k. 0) [[2]] [[7]] 3 (1 / 10 ^ 6) (example_net (1 / 10))) = Inr 1 \<and>
   fit unit_batches (\<lambda>e k. 0) [[1, 2]] [[5, 7]] 2 128 None (Some 7) (example_net (1 / 10))
     = fit unit_batches (\<lambda>e k. 0) [[1, 2]] [[5, 7]] 2 128 None (Some 5) (example_net (1 / 10))"
proof -
  note T = fit_gradient_checks[where mbs = unit_batches and rnd = "\<lambda>e k. 0" and x = "[[1, 2]]"
      and y = "[[5, 7]]" and epochs = 2 and bs = 128 and vd = None and g = "Some 5"
      and self = "example_net (1 / 10)"]
  have h: "GradientChecks [[2]] [[7]] (1 / 10 ^ 6) 3 \<in> set (snd (snd
      (fit unit_batches (\<lambda>e k. 0) [[1, 2]] [[5, 7]] 2 128 None (Some 5) (example_net (1 / 10)))))"
    by (simp add: example_net_eq unit_batches_example eval_simps
        cong: bindE_weak_cong bindS_weak_cong)
  have pair: "sample_pair (\<lambda>k. 0) 0 (shapes (snd (train_on_batch [[2]] [[7]] (example_net (1 / 10)))))
      = Inr (1, 0, 0)"
    by (simp add: sample_pair_def shapes_def example_net_eq eval_simps
        cong: bindE_weak_cong bindS_weak_cong)
  have run: "fst (gradient_checks_loop 3 (\<lambda>k. 0) [[2]] [[7]] (1 / 10 ^ 6)
          (snd (train_on_batch [[2]] [[7]] (example_net (1 / 10)))))
      = Inr ([- 6, - 6, - 6], [- 6, - 6, - 6])"
    by (simp add: example_net_eq eval_simps cong: bindE_weak_cong bindS_weak_cong)
  have good: "fst (gradient_checks (\<lambda>k. 0) [[2]] [[7]] 3 (1 / 10 ^ 6)
          (snd (train_on_batch [[2]] [[7]] (example_net (1 / 10))))) = Inr 0"
    by (simp add: np_norm_def example_net_eq eval_simps cong: bindE_weak_cong bindS_weak_cong)
  have fresh: "fst (gradient_checks (\<lambda>k. 0) [[2]] [[7]] 3 (1 / 10 ^ 6) (example_net (1 / 10))) = Inr 1"
    by (simp add: np_norm_def example_net_eq eval_simps cong: bindE_weak_cong bindS_weak_cong)
  have c1: "fit unit_batches (\<lambda>e k. 0) [[1, 2]] [[5, 7]] 2 128 None (Some 5) (example_net (1 / 10))
     = fit_sampled unit_batches (\<lambda>e k. 0) [[1, 2]] [[5, 7]] 2 128 None (Some 5) (example_net (1 / 10))"
    using T by (rule conjunct1)
  have c2: "gradient_checks (\<lambda>k. 0) [[2]] [[7]] 3 (1 / 10 ^ 6)
       (snd (train_on_batch [[2]] [[7]] (example_net (1 / 10))))
     = sampled_gradient_checks (\<lambda>k. 0) [[2]] [[7]]
         (snd (train_on_batch [[2]] [[7]] (example_net (1 / 10))))"
    using T by blast
  have c3: "truthy (Some 5) \<and> 1 < length (unit_batches [[1, 2]] [[5, 7]] 1000) \<and>
      unit_batches [[1, 2]] [[5, 7]] 1000 ! 1 = ([[2]], [[7]])"
    using T h by blast
  have seven: "(7 :: int) \<noteq> 0" by simp
  have c4: "fit unit_batches (\<lambda>e k. 0) [[1, 2]] [[5, 7]] 2 128 None (Some 7) (example_net (1 / 10))
     = fit unit_batches (\<lambda>e k. 0) [[1, 2]] [[5, 7]] 2 128 None (Some 5) (example_net (1 / 10))"
    using T c3 seven by blast
  show ?thesis
    using c3 by (intro conjI c1 h c2 pair run good fresh c4) simp_all
qed

section \<open>The layers dict\<close>

lemma same_layers_refl: "same_layers s s"
  by (simp add: same_layers_def)

lemma transp_same_layers: "transp same_layers"
  by (rule transpI) (simp add: same_layers_def)

lemma same_attrs_same_layers: "same_attrs a b \<Longrightarrow> same_layers a b"
  by (simp add: same_layers_def same_attrs_layers)

lemmas layers_intros = bindS_rel[of same_layers, OF transp_same_layers]
  bindE_rel[of same_layers] rel_if[of _ same_layers]
  rel_pair[of same_layers] same_layers_refl

lemma compile_loop_layers: "layers (compile_loop ks self) = layers self"
  by (induction ks arbitrary: self) simp_all

lemma compile_layers: "layers (snd (compile f v self)) = layers self"
proof -
  have "same_layers self (snd (compile f v self))"
    unfolding compile_def Let_def
    by (intro layers_intros) (simp_all add: same_layers_def compile_loop_layers)
  then show ?thesis by (simp add: same_layers_def)
qed

lemma compile_batch_norm:
  assumes "layers self = []"
  shows "batch_norm (snd (compile f v self)) = Some False"
proof -
  let ?s2 = "self\<lparr>batch_norm := Some False, lr := Some v, loss_fct := Some f\<rparr>"
  have "batch_norm (snd (bindE m ?s2
          (\<lambda>g. if is_softmax g then (Inr (), ?s2\<lparr>softmax := Some True\<rparr>) else (Inr (), ?s2))))
        = Some False" for m
    by (cases m) (simp_all add: bind_simps)
  then show ?thesis using assms by (simp add: compile_def Let_def)
qed

lemma manual_loop_same: "same_attrs self (snd (manual_loop idxs x y eps k gm self))"
proof (induction idxs arbitrary: gm self)
  case Nil
  show ?case by (simp add: same_attrs_refl)
next
  case (Cons idx idxs)
  show ?case
    unfolding manual_loop.simps
    by (intro same_intros gradient_check_same Cons.IH)
qed

lemma complete_loop_layers: "same_layers self (snd (complete_loop ks x y eps self))"
proof (induction ks arbitrary: self)
  case Nil
  show ?case by (simp add: same_layers_refl)
next
  case (Cons k ks)
  have step: "same_layers s (snd (complete_loop ks x y eps (s\<lparr>n_attr := a, d_attr := b, grads_attr := c\<rparr>)))"
    for s a b c
    using Cons.IH[of "s\<lparr>n_attr := a, d_attr := b, grads_attr := c\<rparr>"] by (simp add: same_layers_def)
  show ?case
    unfolding complete_loop.simps Let_def
    by (intro layers_intros same_attrs_same_layers[OF manual_loop_same] step)
       (simp add: same_layers_def)
qed

lemma complete_gradient_check_layers:
  "layers (snd (complete_gradient_check x y eps self)) = layers self"
  using complete_loop_layers[of "self\<lparr>grads_attr := Some []\<rparr>" "[1..<length (items self)]" x y eps]
  by (simp add: complete_gradient_check_def same_layers_def)

lemma fit_epochs_layers:
  "layers (fst (snd (fit_epochs mbs rnd x y vd g es bound st))) = layers (fst st)"
proof (induction es arbitrary: bound st)
  case Nil
  show ?case by simp
next
  case (Cons e es)
  obtain r st1 where ep: "fit_epoch mbs (rnd e) x y vd g bound st = (r, st1)"
    by (cases "fit_epoch mbs (rnd e) x y vd g bound st")
  have l1: "layers (fst st1) = layers (fst st)"
    using fit_epoch_layers[of mbs "rnd e" x y vd g bound st] ep by simp
  show ?case
    using ep l1 Cons.IH[of _ st1] by (cases r) (simp_all add: bind_simps)
qed

lemma fit_layers: "layers (fst (snd (fit mbs rnd x y epochs bs vd g self))) = layers self"
  using fit_snd_cases[of mbs rnd x y epochs bs vd g self]
    fit_epochs_layers[of mbs rnd x y vd g "[1..<nat epochs]" "\<not> truthy g" "(self, [])"]
  by auto

lemma exec_layers: "layers (exec c self) = layers self"
proof (cases c)
  case (OpAdd l)
  then show ?thesis by (simp add: add_def)
next
  case (OpFit mbs rnd x y epochs bs vd g)
  then show ?thesis by (simp add: fit_layers)
qed (simp_all add: compile_layers complete_gradient_check_layers predict_def
      same_attrs_layers[OF forward_step_same] same_attrs_layers[OF train_on_batch_same]
      same_attrs_layers[OF backpropagation_same] same_attrs_layers[OF backprop_last_layer_same]
      same_attrs_layers[OF update_weights_same] same_attrs_layers[OF get_loss_same]
      same_attrs_layers[OF gradient_checks_same] same_attrs_layers[OF gradient_check_same])

lemma run_layers: "layers (run ops self) = layers self"
  by (induction ops arbitrary: self) (simp_all add: exec_layers)

text \<open>
  C9: after any sequence of operations on a freshly constructed network the \<open>layers\<close>
  dict is still empty, so a following \<open>compile\<close> leaves \<open>batch_norm\<close> at \<open>False\<close>,
  whichever layers were added (the instance below adds a layer whose \<open>info\<close> is
  \<open>'batch'\<close>).
\<close>

theorem layers_never_populated:
  "layers (run ops (Network_init v)) = [] \<and>
   batch_norm (snd (compile f r (run ops (Network_init v)))) = Some False"
proof -
  have "layers (run ops (Network_init v)) = []"
    by (simp add: run_layers Network_init_def)
  then show ?thesis by (simp add: compile_batch_norm)
qed

theorem layers_never_populated_witness:
  "layers (run [OpAdd ((dense [[2]] [[0]])\<lparr>layer_info := Some ''batch''\<rparr>)] (Network_init True)) = [] \<and>
   batch_norm (snd (compile squared_loss 1
      (run [OpAdd ((dense [[2]] [[0]])\<lparr>layer_info := Some ''batch''\<rparr>)] (Network_init True))))
     = Some False"
  by (rule layers_never_populated)

end
